theory Spec2Isabelle
  imports Main
begin

section \<open>The MFS/IPFS utility of the alist driver (drivers/mfs\_ipfs/util/util.go)\<close>

text \<open>
  The file keeps one process-wide IPFS node behind a reference count (\<open>buildCount\<close>) and
  hands out client handles (\<open>MfsAPI\<close>), each with a lazily built mutable root.  The
  embedding is sequential: one call runs at a time.  What the calls do to the outside
  world (repository on disk, node, network) is recorded in a trace of events kept in the
  process state; what the collaborators answer is a parameter of each function.

  A call of the source ends in one of three ways, which the model keeps apart: it returns,
  it panics (a nil function value is called, a nil pointer is dereferenced), or it blocks
  for ever on a lock that is never released.
\<close>

subsection \<open>Values\<close>

text \<open>A Go \<open>error\<close> is known to its caller by its message.\<close>

type_synonym error = string

datatype ('s, 'a) outcome = Returns 's 'a | Panics 's | Blocks

text \<open>
  \<open>closeFunc\<close> holds either the \<open>Close\<close> method of the opened repository or the one of
  the node built on it; \<open>nodeApi\<close> wraps the node.  Each is tagged with the repository path.
\<close>

datatype closer = RepoClose string | NodeClose string

datatype coreapi = CoreAPI string

datatype event =
    EvInitRepo string
  | EvOpenRepo string
  | EvNewNode string
  | EvClosed closer
  | EvRemoveAll string
  | EvGetStatus string
  | EvConnect string
  | EvResolve string
  | EvAdd string
  | EvFlushMemFree

text \<open>The package-level variables (lines 43--50), and the trace of external calls.\<close>

record global =
  DefaultPath :: string
  buildCount :: int
  closeFunc :: "closer option"
  nodeApi :: "coreapi option"
  plugins :: bool
  repopath :: string
  trace :: "event list"

text \<open>
  \<open>type MfsAPI struct\<close> (lines 29--35).  \<open>CID\<close> and \<open>PinID\<close> are pointers to strings,
  \<open>mroot\<close> a pointer to the root, \<open>pinclient\<close> a pointer to the client made from
  \<open>purl\<close> and \<open>ptoken\<close>: \<open>None\<close> is nil.  \<open>lock\<close> is true while the read-write mutex is
  held for writing.
\<close>

record 'r MfsAPI =
  CID :: "string option"
  PinID :: "string option"
  lock :: bool
  mroot :: "'r option"
  pinclient :: "(string \<times> string) option"

text \<open>\<open>type NodeObj struct\<close> (lines 36--41) and the listing entry of go-mfs it is made from.\<close>

record NodeObj =
  Id :: string
  Name :: string
  Size :: int
  Isdir :: bool

record NodeListing =
  nlName :: string
  nlType :: int
  nlSize :: int
  nlHash :: string

text \<open>
  Go's \<open>int\<close> has 64 bits on the platforms kubo runs on: \<open>buildCount++\<close> and
  \<open>buildCount--\<close> wrap around.
\<close>

definition wrap64 :: "int \<Rightarrow> int" where
  "wrap64 x = (x + 2 ^ 63) mod 2 ^ 64 - 2 ^ 63"

subsection \<open>NewMfs (lines 52--115)\<close>

text \<open>
  What the collaborators of the construction answer: the three steps of the plugin loader,
  \<open>config.Init\<close> (the peer identity of the new configuration), \<open>path.Join\<close>,
  \<open>fsrepo.Init\<close>, \<open>fsrepo.Open\<close>, \<open>core.NewNode\<close> and \<open>coreapi.NewCoreAPI\<close>
  (\<open>None\<close>: no error).
\<close>

record build_env =
  NewPluginLoader :: "error option"
  Initialize :: "error option"
  Inject :: "error option"
  configInit :: "error + string"
  pathJoin :: "string \<Rightarrow> string \<Rightarrow> string"
  fsrepoInit :: "string \<Rightarrow> error option"
  fsrepoOpen :: "string \<Rightarrow> error option"
  coreNewNode :: "string \<Rightarrow> error option"
  NewCoreAPI :: "string \<Rightarrow> error option"

text \<open>\<open>&MfsAPI{pinclient: pinningservice.NewClient(purl, ptoken)}\<close>\<close>

definition newMfsAPI :: "string \<Rightarrow> string \<Rightarrow> 'r MfsAPI" where
  "newMfsAPI purl ptoken =
     \<lparr>CID = None, PinID = None, lock = False, mroot = None, pinclient = Some (purl, ptoken)\<rparr>"

text \<open>Lines 63--72: the plugins are loaded once; \<open>plugins\<close> is set when all three steps pass.\<close>

definition loadPlugins :: "build_env \<Rightarrow> global \<Rightarrow> global \<times> error option" where
  "loadPlugins be g =
     (if \<not> plugins g then
        (case NewPluginLoader be of
           Some e \<Rightarrow> (g, Some e)
         | None \<Rightarrow>
            (case Initialize be of
               Some e \<Rightarrow> (g, Some e)
             | None \<Rightarrow>
                (case Inject be of
                   Some e \<Rightarrow> (g, Some e)
                 | None \<Rightarrow> (g\<lparr>plugins := True\<rparr>, None))))
      else (g, None))"

text \<open>
  The two deferred functions of lines 79--84 and 94--99, as they run when \<open>mapi\<close> is nil at
  the return.  The second is only deferred after \<open>closeFunc\<close> was assigned, so the function
  value it calls is \<open>c\<close>.
\<close>

definition deferRemove :: "global \<Rightarrow> global" where
  "deferRemove g = g\<lparr>trace := trace g @ [EvRemoveAll (repopath g)], repopath := []\<rparr>"

definition deferClose :: "closer \<Rightarrow> global \<Rightarrow> global" where
  "deferClose c g = g\<lparr>trace := trace g @ [EvClosed c], closeFunc := None\<rparr>"

definition logEv :: "event list \<Rightarrow> global \<Rightarrow> global" where
  "logEv evs g = g\<lparr>trace := trace g @ evs\<rparr>"

definition NewMfs :: "build_env \<Rightarrow> string \<Rightarrow> string \<Rightarrow> global \<Rightarrow> global \<times> (error + 'r MfsAPI)" where
  "NewMfs be purl ptoken g =
     (if 0 \<le> buildCount g then
        (g\<lparr>buildCount := wrap64 (buildCount g + 1)\<rparr>, Inr (newMfsAPI purl ptoken))
      else
        (case loadPlugins be (g\<lparr>buildCount := - 1, nodeApi := None\<rparr>) of
           (g1, Some e) \<Rightarrow> (g1, Inl e)
         | (g1, None) \<Rightarrow>
            (case configInit be of
               Inl e \<Rightarrow> (g1, Inl e)
             | Inr peerID \<Rightarrow>
                (let p = pathJoin be (DefaultPath g1) (''ipfs_'' @ peerID);
                     g2 = logEv [EvInitRepo p] (g1\<lparr>repopath := p\<rparr>)
                 in case fsrepoInit be p of
                      Some e \<Rightarrow> (deferRemove g2, Inl e)
                    | None \<Rightarrow>
                       (case fsrepoOpen be p of
                          Some e \<Rightarrow> (deferRemove g2, Inl e)
                        | None \<Rightarrow>
                           (let g3 = (logEv [EvOpenRepo p] g2)\<lparr>closeFunc := Some (RepoClose p)\<rparr>
                            in case coreNewNode be p of
                                 Some e \<Rightarrow> (deferRemove (deferClose (RepoClose p) g3), Inl e)
                               | None \<Rightarrow>
                                  (let g4 = (logEv [EvNewNode p] g3)\<lparr>closeFunc := Some (NodeClose p)\<rparr>
                                   in case NewCoreAPI be p of
                                        Some e \<Rightarrow> (deferRemove (deferClose (NodeClose p) g4), Inl e)
                                      | None \<Rightarrow>
                                         (g4\<lparr>nodeApi := Some (CoreAPI p), buildCount := 1\<rparr>,
                                          Inr (newMfsAPI purl ptoken)))))))))"

subsection \<open>Close (lines 116--135)\<close>

text \<open>
  \<open>mapi.lock.Lock()\<close> has no matching unlock: the handle's lock stays held.  The body
  flushes and drops the root; the deferred function then decrements the count and, at
  \<open>buildCount <= 0\<close>, resets the variables, calls \<open>closeFunc\<close> (a panic when it is nil)
  and, through \<open>defer os.RemoveAll(repopath)\<close>, whose argument is read before the reset,
  removes the repository.  \<open>err\<close> is never assigned.
\<close>

definition Close :: "global \<Rightarrow> 'r MfsAPI \<Rightarrow> (global \<times> 'r MfsAPI, error option) outcome" where
  "Close g h =
     (if lock h then Blocks
      else
        (let h1 = h\<lparr>lock := True\<rparr>;
             g1 = (case mroot h1 of None \<Rightarrow> g | Some r \<Rightarrow> logEv [EvFlushMemFree] g);
             h2 = h1\<lparr>mroot := None\<rparr>;
             g2 = g1\<lparr>buildCount := wrap64 (buildCount g1 - 1)\<rparr>
         in if buildCount g2 \<le> 0 then
              (let p = repopath g2;
                   g3 = g2\<lparr>buildCount := - 1, nodeApi := None, repopath := []\<rparr>
               in case closeFunc g3 of
                    None \<Rightarrow> Panics (logEv [EvRemoveAll p] g3, h2)
                  | Some c \<Rightarrow>
                      Returns (logEv [EvRemoveAll p] ((logEv [EvClosed c] g3)\<lparr>closeFunc := None\<rparr>), h2) None)
            else Returns (g2, h2) None))"

subsection \<open>The collaborators of a handle\<close>

text \<open>
  A node of the content graph (\<open>ipldformat.Node\<close>) is a \<open>*merkledag.ProtoNode\<close> or a
  node of another Go type, whose name \<open>reflect.TypeOf\<close> reports; both carry their content
  identifier.  A node of the mutable tree (\<open>mfs.FSNode\<close>) is a \<open>*mfs.Directory\<close> or a
  \<open>*mfs.File\<close>.
\<close>

datatype ldnode = ProtoNode string | OtherNode string string

fun nodeCid :: "ldnode \<Rightarrow> string" where
  "nodeCid (ProtoNode c) = c"
| "nodeCid (OtherNode t c) = c"

datatype 'd fsnode = Directory 'd | File

text \<open>What \<open>GetStatusByID\<close> answers: the status, the pinned content identifier, the delegates.\<close>

record PinStatus =
  status :: string
  pinCid :: string
  delegates :: "string list"

text \<open>\<open>pinningservice.StatusPinned\<close>, a constant of the pinning-service client.\<close>

definition StatusPinned :: string where
  "StatusPinned = ''pinned''"

text \<open>
  The answers of the pin service, of libp2p's address parser, of the node API
  (\<open>ResolveNode\<close>, \<open>Unixfs().Add\<close>) and of go-mfs, over a type \<open>'r\<close> of roots and a type
  \<open>'d\<close> of directories inside a root.  go-mfs changes the root in place: each of its
  mutating functions returns the root as it is afterwards, with its error.  \<open>TDir\<close> is the
  type tag go-mfs gives a directory in a listing.
\<close>

record ('r, 'd) env =
  GetStatusByID :: "string \<times> string \<Rightarrow> string \<Rightarrow> error + PinStatus"
  AddrInfosFromP2pAddrs :: "string list \<Rightarrow> error + string list"
  ResolveNode :: "string \<Rightarrow> error + ldnode"
  UnixfsAdd :: "string \<Rightarrow> error + string"
  mfsNewRoot :: "string \<Rightarrow> error + 'r"
  rootGetNode :: "'r \<Rightarrow> error + ldnode"
  rootFlush :: "'r \<Rightarrow> 'r \<times> error option"
  mfsLookup :: "'r \<Rightarrow> string \<Rightarrow> error + 'd fsnode"
  dirList :: "'r \<Rightarrow> 'd \<Rightarrow> error + NodeListing list"
  dirUnlink :: "'r \<Rightarrow> 'd \<Rightarrow> string \<Rightarrow> 'r \<times> error option"
  mfsMkdir :: "'r \<Rightarrow> string \<Rightarrow> 'r \<times> error option"
  mfsMv :: "'r \<Rightarrow> string \<Rightarrow> string \<Rightarrow> 'r \<times> error option"
  mfsPutNode :: "'r \<Rightarrow> string \<Rightarrow> ldnode \<Rightarrow> 'r \<times> error option"
  TDir :: int

subsection \<open>newRoot (lines 136--193)\<close>

text \<open>
  Lines 153--162.  The \<open>err\<close> of \<open>pinstatus, err := ...\<close> is a variable of the \<open>if\<close>
  statement: an error of the pin service leaves the function's own \<open>err\<close> nil and
  \<open>rootcid\<close> as it was.  So does the \<open>err\<close> of the address parser.  Each
  \<open>go nodeApi.Swarm().Connect(Ctx, a)\<close> evaluates \<open>nodeApi.Swarm()\<close> in the caller: a
  panic when \<open>nodeApi\<close> is nil (\<open>None\<close> here).
\<close>

definition pinStep :: "('r, 'd) env \<Rightarrow> global \<Rightarrow> error + PinStatus \<Rightarrow> string \<Rightarrow> (global \<times> string) option" where
  "pinStep env g res rootcid =
     (case res of
        Inl e \<Rightarrow> Some (g, rootcid)
      | Inr ps \<Rightarrow>
         (let rootcid' = (if status ps = StatusPinned then pinCid ps else rootcid)
          in case AddrInfosFromP2pAddrs env (delegates ps) of
               Inl e \<Rightarrow> Some (g, rootcid')
             | Inr info \<Rightarrow>
                 if info \<noteq> [] \<and> nodeApi g = None then None
                 else Some (logEv (map EvConnect info) g, rootcid')))"

text \<open>
  Lines 163--192: resolve \<open>rootcid\<close>, require a \<open>ProtoNode\<close>, build the root over it, read
  the node of its directory; only then flush and free the old root, install the new one
  and write its content identifier through \<open>mapi.CID\<close> when that pointer is not nil.
\<close>

definition rebuild :: "('r, 'd) env \<Rightarrow> global \<Rightarrow> 'r MfsAPI \<Rightarrow> string \<Rightarrow> (global \<times> 'r MfsAPI, error option) outcome" where
  "rebuild env g h rootcid =
     (case nodeApi g of
        None \<Rightarrow> Panics (g, h)
      | Some api \<Rightarrow>
         (let g1 = logEv [EvResolve rootcid] g
          in case ResolveNode env rootcid of
               Inl e \<Rightarrow> Returns (g1, h) (Some e)
             | Inr (OtherNode t c) \<Rightarrow> Returns (g1, h) (Some t)
             | Inr (ProtoNode c) \<Rightarrow>
                (case mfsNewRoot env c of
                   Inl e \<Rightarrow> Returns (g1, h) (Some e)
                 | Inr r \<Rightarrow>
                    (case rootGetNode env r of
                       Inl e \<Rightarrow> Returns (g1, h) (Some e)
                     | Inr ld \<Rightarrow>
                        Returns
                          (case mroot h of None \<Rightarrow> g1 | Some old \<Rightarrow> logEv [EvFlushMemFree] g1,
                           h\<lparr>mroot := Some r,
                             CID := (case CID h of None \<Rightarrow> None | Some c0 \<Rightarrow> Some (nodeCid ld))\<rparr>)
                          None))))"

definition newRoot :: "('r, 'd) env \<Rightarrow> bool \<Rightarrow> global \<Rightarrow> 'r MfsAPI \<Rightarrow> (global \<times> 'r MfsAPI, error option) outcome" where
  "newRoot env force g h =
     (if \<not> force \<and> mroot h \<noteq> None then Returns (g, h) None
      else if lock h then Blocks
      else if \<not> force \<and> mroot h \<noteq> None then Returns (g, h) None
      else
        (let pinid = (case PinID h of None \<Rightarrow> [] | Some s \<Rightarrow> s);
             rootcid = (case CID h of None \<Rightarrow> [] | Some s \<Rightarrow> s)
         in case pinclient h of
              None \<Rightarrow> Panics (g, h)
            | Some pc \<Rightarrow>
               (case pinStep env (logEv [EvGetStatus pinid] g) (GetStatusByID env pc pinid) rootcid of
                  None \<Rightarrow> Panics (logEv [EvGetStatus pinid] g, h)
                | Some (g1, rootcid') \<Rightarrow> rebuild env g1 h rootcid')))"

subsection \<open>The tree operations (lines 194--290)\<close>

text \<open>
  Every operation calls \<open>newRoot(false)\<close> first and returns its error; then it takes the
  handle's lock for reading, which blocks while \<open>Close\<close> holds it.  \<open>withRoot\<close> is this
  common opening, followed by the rest of the operation on the root; go-mfs dereferences
  the root, so a nil root is a panic.
\<close>

definition withRoot ::
  "('r, 'd) env \<Rightarrow> global \<Rightarrow> 'r MfsAPI \<Rightarrow> (error \<Rightarrow> 'a) \<Rightarrow>
   (global \<Rightarrow> 'r MfsAPI \<Rightarrow> 'r \<Rightarrow> (global \<times> 'r MfsAPI, 'a) outcome) \<Rightarrow>
   (global \<times> 'r MfsAPI, 'a) outcome" where
  "withRoot env g h failed body =
     (case newRoot env False g h of
        Blocks \<Rightarrow> Blocks
      | Panics s \<Rightarrow> Panics s
      | Returns s (Some e) \<Rightarrow> Returns s (failed e)
      | Returns (g1, h1) None \<Rightarrow>
          if lock h1 then Blocks
          else (case mroot h1 of None \<Rightarrow> Panics (g1, h1) | Some r \<Rightarrow> body g1 h1 r))"

text \<open>Lines 200--220 of \<open>List\<close>, on the root \<open>r\<close>.\<close>

definition toNodeObj :: "('r, 'd) env \<Rightarrow> NodeListing \<Rightarrow> NodeObj" where
  "toNodeObj env n = \<lparr>Id = nlHash n, Name = nlName n, Size = nlSize n, Isdir = (nlType n = TDir env)\<rparr>"

definition listDir :: "('r, 'd) env \<Rightarrow> 'r \<Rightarrow> string \<Rightarrow> error + NodeObj list" where
  "listDir env r pth =
     (case mfsLookup env r pth of
        Inl e \<Rightarrow> Inl e
      | Inr File \<Rightarrow> Inl ''*mfs.File''
      | Inr (Directory d) \<Rightarrow>
         (case dirList env r d of
            Inl e \<Rightarrow> Inl e
          | Inr nl \<Rightarrow> Inr (map (toNodeObj env) nl)))"

definition MfsList :: "('r, 'd) env \<Rightarrow> global \<Rightarrow> 'r MfsAPI \<Rightarrow> string \<Rightarrow> (global \<times> 'r MfsAPI, error + NodeObj list) outcome" where
  "MfsList env g h pth = withRoot env g h Inl (\<lambda>g1 h1 r. Returns (g1, h1) (listDir env r pth))"

text \<open>
  \<open>waitpin\<close> (lines 284--290), on the root the mutation left: the flush, and
  \<open>NotImplement\<close> when the flush passes.
\<close>

definition waitpin :: "('r, 'd) env \<Rightarrow> 'r \<Rightarrow> 'r \<times> error option" where
  "waitpin env r =
     (case rootFlush env r of
        (r', None) \<Rightarrow> (r', Some ''NotImplement'')
      | (r', Some e) \<Rightarrow> (r', Some e))"

text \<open>The tail shared by the four mutating operations: \<open>if err == nil { err = mapi.waitpin() }\<close>.\<close>

definition thenWaitpin ::
  "('r, 'd) env \<Rightarrow> global \<Rightarrow> 'r MfsAPI \<Rightarrow> 'r \<times> error option \<Rightarrow> (global \<times> 'r MfsAPI, error option) outcome" where
  "thenWaitpin env g h res =
     (case res of
        (r', Some e) \<Rightarrow> Returns (g, h\<lparr>mroot := Some r'\<rparr>) (Some e)
      | (r', None) \<Rightarrow>
         (case waitpin env r' of (r'', e) \<Rightarrow> Returns (g, h\<lparr>mroot := Some r''\<rparr>) e))"

definition Mkdir :: "('r, 'd) env \<Rightarrow> global \<Rightarrow> 'r MfsAPI \<Rightarrow> string \<Rightarrow> (global \<times> 'r MfsAPI, error option) outcome" where
  "Mkdir env g h pth =
     withRoot env g h Some (\<lambda>g1 h1 r. thenWaitpin env g1 h1 (mfsMkdir env r pth))"

definition Mv :: "('r, 'd) env \<Rightarrow> global \<Rightarrow> 'r MfsAPI \<Rightarrow> string \<Rightarrow> string \<Rightarrow> (global \<times> 'r MfsAPI, error option) outcome" where
  "Mv env g h src dst =
     withRoot env g h Some (\<lambda>g1 h1 r. thenWaitpin env g1 h1 (mfsMv env r src dst))"

text \<open>
  Lines 250--259 of \<open>Put\<close>: the content identifier is resolved; when that fails the stream
  \<open>rc\<close> is added to the store and the resulting path resolved.
\<close>

definition putResolve :: "('r, 'd) env \<Rightarrow> global \<Rightarrow> string \<Rightarrow> string \<Rightarrow> global \<times> (error + ldnode)" where
  "putResolve env g nodecid rc =
     (case ResolveNode env nodecid of
        Inr n \<Rightarrow> (logEv [EvResolve nodecid] g, Inr n)
      | Inl e0 \<Rightarrow>
         (case UnixfsAdd env rc of
            Inl e \<Rightarrow> (logEv [EvResolve nodecid, EvAdd rc] g, Inl e)
          | Inr rspath \<Rightarrow> (logEv [EvResolve nodecid, EvAdd rc, EvResolve rspath] g, ResolveNode env rspath)))"

definition Put :: "('r, 'd) env \<Rightarrow> global \<Rightarrow> 'r MfsAPI \<Rightarrow> string \<Rightarrow> string \<Rightarrow> string \<Rightarrow> (global \<times> 'r MfsAPI, error option) outcome" where
  "Put env g h pth nodecid rc =
     withRoot env g h Some (\<lambda>g1 h1 r.
       case nodeApi g1 of
         None \<Rightarrow> Panics (g1, h1)
       | Some api \<Rightarrow>
          (case putResolve env g1 nodecid rc of
             (g2, Inl e) \<Rightarrow> Returns (g2, h1) (Some e)
           | (g2, Inr rsnode) \<Rightarrow> thenWaitpin env g2 h1 (mfsPutNode env r pth rsnode)))"

text \<open>
  \<open>Unlink\<close> (lines 268--283).  After the lookup and the type assertion, line 279 calls
  \<open>dnode.Unlink(fname)\<close> whatever \<open>err\<close> holds.  When the lookup failed or found a file,
  \<open>dnode\<close> is nil, and \<open>(*mfs.Directory).Unlink\<close> locks a field of its receiver first: a
  nil dereference.
\<close>

definition Unlink :: "('r, 'd) env \<Rightarrow> global \<Rightarrow> 'r MfsAPI \<Rightarrow> string \<Rightarrow> string \<Rightarrow> (global \<times> 'r MfsAPI, error option) outcome" where
  "Unlink env g h pth fname =
     withRoot env g h Some (\<lambda>g1 h1 r.
       case mfsLookup env r pth of
         Inl e \<Rightarrow> Panics (g1, h1)
       | Inr File \<Rightarrow> Panics (g1, h1)
       | Inr (Directory d) \<Rightarrow> thenWaitpin env g1 h1 (dirUnlink env r d fname))"

subsection \<open>States of the process, and runs of NewMfs and Close\<close>

text \<open>
  The variables as the package initialises them (\<open>DefaultPath\<close> is set by the driver), the
  two shapes the code leaves them in, and a process that calls only \<open>NewMfs\<close> and \<open>Close\<close>:
  it keeps the handles it was given and closes one of those (\<open>CallClose i\<close>, the \<open>i\<close>-th
  live handle), so that it never releases more handles than it acquired.
\<close>

definition initial :: "string \<Rightarrow> global" where
  "initial dp = \<lparr>DefaultPath = dp, buildCount = - 1, closeFunc = None, nodeApi = None,
                 plugins = False, repopath = [], trace = []\<rparr>"

definition uninitialized :: "global \<Rightarrow> bool" where
  "uninitialized g = (buildCount g = - 1 \<and> nodeApi g = None \<and> closeFunc g = None \<and> repopath g = [])"

definition running :: "global \<Rightarrow> bool" where
  "running g = (1 \<le> buildCount g \<and> buildCount g < 2 ^ 63 \<and>
     closeFunc g = Some (NodeClose (repopath g)) \<and> nodeApi g = Some (CoreAPI (repopath g)))"

definition wellformed :: "global \<Rightarrow> bool" where
  "wellformed g = (uninitialized g \<or> running g)"

datatype call = CallNewMfs build_env string string | CallClose nat

record 'r system =
  glob :: global
  handles :: "'r MfsAPI list"

fun step :: "'r system \<Rightarrow> call \<Rightarrow> 'r system option" where
  "step s (CallNewMfs be purl ptoken) =
     (case NewMfs be purl ptoken (glob s) of
        (g', Inl e) \<Rightarrow> Some (s\<lparr>glob := g'\<rparr>)
      | (g', Inr h) \<Rightarrow> Some \<lparr>glob = g', handles = handles s @ [h]\<rparr>)"
| "step s (CallClose i) =
     (if i < length (handles s) then
        (case Close (glob s) (handles s ! i) of
           Returns (g', h') e \<Rightarrow> Some \<lparr>glob = g', handles = take i (handles s) @ drop (Suc i) (handles s)\<rparr>
         | Panics x \<Rightarrow> None
         | Blocks \<Rightarrow> None)
      else None)"

fun run :: "call list \<Rightarrow> 'r system \<Rightarrow> 'r system option" where
  "run [] s = Some s"
| "run (c # cs) s = (case step s c of None \<Rightarrow> None | Some s' \<Rightarrow> run cs s')"

text \<open>
  What holds of such a process between calls: no live handle is locked or has a root (the
  process calls nothing else), the variables are uninitialised when no handle is live, and
  the count is the number of live handles otherwise.
\<close>

definition sys_inv :: "'r system \<Rightarrow> bool" where
  "sys_inv s =
     ((\<forall>h \<in> set (handles s). \<not> lock h \<and> mroot h = None) \<and>
      (if handles s = [] then uninitialized (glob s)
       else running (glob s) \<and> buildCount (glob s) = int (length (handles s))))"

subsection \<open>Example collaborators\<close>

text \<open>A construction in which every step passes, and the states it leads to.\<close>

definition exBuild :: build_env where
  "exBuild = \<lparr>NewPluginLoader = None, Initialize = None, Inject = None,
     configInit = Inr ''QmPeer'', pathJoin = (\<lambda>d n. if d = [] then n else d @ ''/'' @ n),
     fsrepoInit = (\<lambda>p. None), fsrepoOpen = (\<lambda>p. None),
     coreNewNode = (\<lambda>p. None), NewCoreAPI = (\<lambda>p. None)\<rparr>"

definition exRunning :: global where
  "exRunning = \<lparr>DefaultPath = [], buildCount = 1, closeFunc = Some (NodeClose ''ipfs_QmPeer''),
       nodeApi = Some (CoreAPI ''ipfs_QmPeer''), plugins = True, repopath = ''ipfs_QmPeer'',
       trace = [EvInitRepo ''ipfs_QmPeer'', EvOpenRepo ''ipfs_QmPeer'', EvNewNode ''ipfs_QmPeer'']\<rparr>"

definition exClosed :: global where
  "exClosed = \<lparr>DefaultPath = [], buildCount = - 1, closeFunc = None,
       nodeApi = None, plugins = True, repopath = [],
       trace = [EvInitRepo ''ipfs_QmPeer'', EvOpenRepo ''ipfs_QmPeer'', EvNewNode ''ipfs_QmPeer'',
                EvClosed (NodeClose ''ipfs_QmPeer''), EvRemoveAll ''ipfs_QmPeer'']\<rparr>"

text \<open>A construction whose last step, wrapping the node in the core API, fails.\<close>

definition exBuildNoApi :: build_env where
  "exBuildNoApi = exBuild\<lparr>NewCoreAPI := (\<lambda>p. Some ''no api'')\<rparr>"

text \<open>
  A toy go-mfs for the examples: a root is the listing of its top directory, \<open>/\<close> is the
  only directory, and a root built from the node \<open>c\<close> holds one file named \<open>c\<close>.  The
  pin service reports \<open>QmPinned\<close> as pinned; the node API resolves \<open>QmPinned\<close> and
  \<open>QmKnown\<close>.
\<close>

definition exEnv :: "(NodeListing list, unit) env" where
  "exEnv = \<lparr>
     GetStatusByID = (\<lambda>pc pinid. Inr \<lparr>status = ''pinned'', pinCid = ''QmPinned'', delegates = []\<rparr>),
     AddrInfosFromP2pAddrs = (\<lambda>as. Inr as),
     ResolveNode = (\<lambda>c. if c = ''QmPinned'' \<or> c = ''QmKnown'' then Inr (ProtoNode c) else Inl ''not found''),
     UnixfsAdd = (\<lambda>rc. Inr ''QmAdded''),
     mfsNewRoot = (\<lambda>c. Inr [\<lparr>nlName = c, nlType = 0, nlSize = 0, nlHash = c\<rparr>]),
     rootGetNode = (\<lambda>r. Inr (ProtoNode ''QmRoot'')),
     rootFlush = (\<lambda>r. (r, None)),
     mfsLookup = (\<lambda>r p. if p = ''/'' then Inr (Directory ()) else Inl ''file does not exist''),
     dirList = (\<lambda>r d. Inr r),
     dirUnlink = (\<lambda>r d n. if n \<in> nlName ` set r then (filter (\<lambda>e. nlName e \<noteq> n) r, None)
                          else (r, Some ''file does not exist'')),
     mfsMkdir = (\<lambda>r p. (r @ [\<lparr>nlName = p, nlType = 1, nlSize = 0, nlHash = ''QmDir''\<rparr>], None)),
     mfsMv = (\<lambda>r a b. (map (\<lambda>e. if nlName e = a then e\<lparr>nlName := b\<rparr> else e) r, None)),
     mfsPutNode = (\<lambda>r p n. (r @ [\<lparr>nlName = p, nlType = 0, nlSize = 0, nlHash = nodeCid n\<rparr>], None)),
     TDir = 1\<rparr>"

text \<open>The same with the pin service down, and with a content graph that does not resolve.\<close>

definition exEnvPinDown :: "(NodeListing list, unit) env" where
  "exEnvPinDown = exEnv\<lparr>GetStatusByID := (\<lambda>pc pinid. Inl ''pin service unreachable'')\<rparr>"

definition exEnvNoResolve :: "(NodeListing list, unit) env" where
  "exEnvNoResolve = exEnv\<lparr>ResolveNode := (\<lambda>c. Inl ''context deadline exceeded'')\<rparr>"

text \<open>A fresh handle whose \<open>CID\<close> points to \<open>QmKnown\<close>, and one that has built its root from it.\<close>

definition exHandle :: "NodeListing list MfsAPI" where
  "exHandle = \<lparr>CID = Some ''QmKnown'', PinID = None, lock = False, mroot = None,
               pinclient = Some (''u'', ''t'')\<rparr>"

definition exRooted :: "NodeListing list MfsAPI" where
  "exRooted = \<lparr>CID = Some ''QmRoot'', PinID = None, lock = False,
               mroot = Some [\<lparr>nlName = ''QmKnown'', nlType = 0, nlSize = 0, nlHash = ''QmKnown''\<rparr>],
               pinclient = Some (''u'', ''t'')\<rparr>"

section \<open>Properties\<close>

subsection \<open>The reference count\<close>

lemma wrap64_id: "- (2 ^ 63) \<le> x \<Longrightarrow> x < 2 ^ 63 \<Longrightarrow> wrap64 x = x"
  by (simp add: wrap64_def)

lemma loadPlugins_fields:
  "loadPlugins be g = (g1, r) \<Longrightarrow>
     buildCount g1 = buildCount g \<and> nodeApi g1 = nodeApi g \<and> closeFunc g1 = closeFunc g \<and>
     repopath g1 = repopath g \<and> trace g1 = trace g \<and> DefaultPath g1 = DefaultPath g"
  by (auto simp: loadPlugins_def split: if_splits option.splits)

lemma loadPlugins_ok:
  "(\<exists>g1. loadPlugins be g = (g1, None)) =
     (plugins g \<or> (NewPluginLoader be = None \<and> Initialize be = None \<and> Inject be = None))"
  by (auto simp: loadPlugins_def split: if_splits option.splits)

lemma NewMfs_fast:
  "0 \<le> buildCount g \<Longrightarrow>
     NewMfs be purl ptoken g = (g\<lparr>buildCount := wrap64 (buildCount g + 1)\<rparr>, Inr (newMfsAPI purl ptoken))"
  by (simp add: NewMfs_def)

lemma NewMfs_fail_uninitialized:
  assumes "uninitialized g" and "NewMfs be purl ptoken g = (g', Inl e)"
  shows "uninitialized g'"
  using assms
  by (auto simp: NewMfs_def uninitialized_def Let_def deferRemove_def deferClose_def logEv_def
      split: if_splits option.splits sum.splits prod.splits dest!: loadPlugins_fields)

lemma NewMfs_build_ok:
  assumes "uninitialized g" and "NewMfs be purl ptoken g = (g', Inr h)"
  shows "h = newMfsAPI purl ptoken \<and> running g' \<and> buildCount g' = 1 \<and>
         trace g' = trace g @ [EvInitRepo (repopath g'), EvOpenRepo (repopath g'), EvNewNode (repopath g')]"
  using assms
  by (auto simp: NewMfs_def uninitialized_def running_def Let_def deferRemove_def deferClose_def logEv_def
      split: if_splits option.splits sum.splits prod.splits dest!: loadPlugins_fields)

lemma NewMfs_fail_trace:
  assumes "uninitialized g" and "NewMfs be purl ptoken g = (g', Inl e)"
  shows "\<exists>p. trace g' = trace g \<or> trace g' = trace g @ [EvInitRepo p, EvRemoveAll p]
          \<or> trace g' = trace g @ [EvInitRepo p, EvOpenRepo p, EvClosed (RepoClose p), EvRemoveAll p]
          \<or> trace g' = trace g @ [EvInitRepo p, EvOpenRepo p, EvNewNode p, EvClosed (NodeClose p), EvRemoveAll p]"
  using assms
  by (auto simp: NewMfs_def uninitialized_def Let_def deferRemove_def deferClose_def logEv_def
      split: if_splits option.splits sum.splits prod.splits dest!: loadPlugins_fields)

lemma Close_blocks: "lock h \<Longrightarrow> Close g h = Blocks"
  by (simp add: Close_def)

lemma Close_uninitialized:
  assumes "uninitialized g" and "\<not> lock h"
  shows "\<exists>g'. Close g h = Panics (g', h\<lparr>lock := True, mroot := None\<rparr>) \<and> uninitialized g' \<and>
          trace g' = trace g @ (case mroot h of None \<Rightarrow> [] | Some r \<Rightarrow> [EvFlushMemFree]) @ [EvRemoveAll []]"
  using assms
  by (auto simp: Close_def uninitialized_def Let_def logEv_def wrap64_def split: option.splits)

lemma Close_last:
  assumes "running g" and "buildCount g = 1" and "\<not> lock h"
  shows "\<exists>g'. Close g h = Returns (g', h\<lparr>lock := True, mroot := None\<rparr>) None \<and> uninitialized g' \<and>
          trace g' = trace g @ (case mroot h of None \<Rightarrow> [] | Some r \<Rightarrow> [EvFlushMemFree])
                      @ [EvClosed (NodeClose (repopath g)), EvRemoveAll (repopath g)]"
  using assms
  by (auto simp: Close_def uninitialized_def running_def Let_def logEv_def wrap64_def split: option.splits)

lemma Close_shared:
  assumes "running g" and "1 < buildCount g" and "\<not> lock h"
  shows "\<exists>g'. Close g h = Returns (g', h\<lparr>lock := True, mroot := None\<rparr>) None \<and> running g' \<and>
          buildCount g' = buildCount g - 1 \<and> repopath g' = repopath g \<and>
          trace g' = trace g @ (case mroot h of None \<Rightarrow> [] | Some r \<Rightarrow> [EvFlushMemFree])"
  using assms
  by (auto simp: Close_def running_def Let_def logEv_def wrap64_id split: option.splits)

lemma step_NewMfs_some: "step s (CallNewMfs be purl ptoken) \<noteq> None"
  by (simp split: prod.splits sum.splits)

lemma step_facts:
  fixes s :: "'r system"
  assumes inv: "sys_inv s" and bound: "int (length (handles s)) < 2 ^ 63 - 1"
      and st: "step s c = Some s'"
  shows "sys_inv s' \<and> length (handles s') \<le> Suc (length (handles s)) \<and>
      (handles s = [] \<and> handles s' \<noteq> [] \<longrightarrow>
           trace (glob s') = trace (glob s) @
             [EvInitRepo (repopath (glob s')), EvOpenRepo (repopath (glob s')), EvNewNode (repopath (glob s'))]) \<and>
      (handles s \<noteq> [] \<and> handles s' \<noteq> [] \<longrightarrow> trace (glob s') = trace (glob s)) \<and>
      (handles s \<noteq> [] \<and> handles s' = [] \<longrightarrow>
           trace (glob s') = trace (glob s) @
             [EvClosed (NodeClose (repopath (glob s))), EvRemoveAll (repopath (glob s))])"
proof (cases c)
  case (CallNewMfs be purl ptoken)
  show ?thesis
  proof (cases "handles s = []")
    case True
    then have un: "uninitialized (glob s)" using inv by (simp add: sys_inv_def)
    show ?thesis
    proof (cases "NewMfs be purl ptoken (glob s) :: global \<times> (error + 'r MfsAPI)")
      case (Pair g' res)
      show ?thesis
      proof (cases res)
        case (Inl e)
        with Pair st CallNewMfs have s': "s' = s\<lparr>glob := g'\<rparr>" by simp
        from NewMfs_fail_uninitialized[OF un Pair[unfolded Inl]] have "uninitialized g'" .
        with s' True inv show ?thesis by (simp add: sys_inv_def)
      next
        case (Inr h)
        with Pair st CallNewMfs have s': "s' = \<lparr>glob = g', handles = handles s @ [h]\<rparr>" by simp
        from NewMfs_build_ok[OF un Pair[unfolded Inr]]
        have "h = newMfsAPI purl ptoken" "running g'" "buildCount g' = 1"
          "trace g' = trace (glob s) @ [EvInitRepo (repopath g'), EvOpenRepo (repopath g'), EvNewNode (repopath g')]"
          by simp_all
        with s' True show ?thesis by (simp add: sys_inv_def newMfsAPI_def)
      qed
    qed
  next
    case False
    then have run: "running (glob s)" and cnt: "buildCount (glob s) = int (length (handles s))"
      using inv by (simp_all add: sys_inv_def)
    then have "0 \<le> buildCount (glob s)" by simp
    then have "NewMfs be purl ptoken (glob s) =
        ((glob s)\<lparr>buildCount := wrap64 (buildCount (glob s) + 1)\<rparr>, Inr (newMfsAPI purl ptoken :: 'r MfsAPI))"
      by (rule NewMfs_fast)
    with st CallNewMfs
    have s': "s' = \<lparr>glob = (glob s)\<lparr>buildCount := wrap64 (buildCount (glob s) + 1)\<rparr>,
                    handles = handles s @ [newMfsAPI purl ptoken]\<rparr>"
      by simp
    have "wrap64 (buildCount (glob s) + 1) = buildCount (glob s) + 1"
      using cnt bound by (intro wrap64_id) simp_all
    with s' False run cnt bound inv show ?thesis
      by (auto simp: sys_inv_def running_def newMfsAPI_def)
  qed
  next
  case (CallClose i)
  with st have i: "i < length (handles s)" by (simp split: if_splits)
  then have ne: "handles s \<noteq> []" by auto
  then have run: "running (glob s)" and cnt: "buildCount (glob s) = int (length (handles s))"
    using inv by (simp_all add: sys_inv_def)
  from i inv have hi: "\<not> lock (handles s ! i)" "mroot (handles s ! i) = None"
    by (simp_all add: sys_inv_def)
  let ?hs = "take i (handles s) @ drop (Suc i) (handles s)"
  have rest: "\<forall>h \<in> set ?hs. \<not> lock h \<and> mroot h = None"
    using inv by (auto simp: sys_inv_def dest: in_set_takeD in_set_dropD)
  have len: "length ?hs = length (handles s) - 1" using i by auto
  show ?thesis
  proof (cases "length (handles s) = 1")
    case True
    then have "buildCount (glob s) = 1" using cnt by simp
    from Close_last[OF run this hi(1)] obtain g' where
      cl: "Close (glob s) (handles s ! i) = Returns (g', (handles s ! i)\<lparr>lock := True, mroot := None\<rparr>) None"
      and un: "uninitialized g'"
      and tr: "trace g' = trace (glob s) @ [EvClosed (NodeClose (repopath (glob s))), EvRemoveAll (repopath (glob s))]"
      using hi(2) by auto
    from cl st CallClose i have s': "s' = \<lparr>glob = g', handles = ?hs\<rparr>" by simp
    from True len have "length ?hs = 0" by linarith
    then have "?hs = []" by (simp only: length_0_conv)
    with s' un tr ne show ?thesis by (simp add: sys_inv_def)
  next
    case False
    with ne have gt: "1 < buildCount (glob s)" using cnt by (cases "handles s") auto
    from Close_shared[OF run gt hi(1)] obtain g' where
      cl: "Close (glob s) (handles s ! i) = Returns (g', (handles s ! i)\<lparr>lock := True, mroot := None\<rparr>) None"
      and run': "running g'" and cnt': "buildCount g' = buildCount (glob s) - 1"
      and tr: "trace g' = trace (glob s)"
      using hi(2) by auto
    from cl st CallClose i have s': "s' = \<lparr>glob = g', handles = ?hs\<rparr>" by simp
    from False ne have "1 < length (handles s)" by (cases "handles s") auto
    with len have "length ?hs \<noteq> 0" by linarith
    then have "?hs \<noteq> []" by (simp only: length_0_conv not_False_eq_True)
    with s' run' cnt' tr rest len cnt i show ?thesis by (auto simp: sys_inv_def)
  qed
qed

lemma step_live_close:
  fixes s :: "'r system"
  assumes inv: "sys_inv s" and i: "i < length (handles s)"
  shows "step s (CallClose i) \<noteq> None"
proof -
  from i have ne: "handles s \<noteq> []" by auto
  then have run: "running (glob s)" and cnt: "buildCount (glob s) = int (length (handles s))"
    using inv by (simp_all add: sys_inv_def)
  from i inv have hi: "\<not> lock (handles s ! i)" by (simp add: sys_inv_def)
  show ?thesis
  proof (cases "buildCount (glob s) = 1")
    case True
    from Close_last[OF run True hi] i show ?thesis by auto
  next
    case False
    with run have "1 < buildCount (glob s)" by (simp add: running_def)
    from Close_shared[OF run this hi] i show ?thesis by auto
  qed
qed

lemma run_inv:
  fixes s :: "'r system"
  shows "sys_inv s \<Longrightarrow> int (length (handles s) + length cs) < 2 ^ 63 \<Longrightarrow> run cs s = Some s' \<Longrightarrow>
     sys_inv s' \<and> length (handles s') \<le> length (handles s) + length cs"
proof (induction cs arbitrary: s)
  case Nil
  then show ?case by simp
next
  case (Cons c cs)
  from Cons.prems(3) obtain s1 where st: "step s c = Some s1" and rn: "run cs s1 = Some s'"
    by (auto split: option.splits)
  from Cons.prems(2) have b: "int (length (handles s)) < 2 ^ 63 - 1" by simp
  from step_facts[OF Cons.prems(1) b st]
  have inv1: "sys_inv s1" and len1: "length (handles s1) \<le> Suc (length (handles s))" by simp_all
  from len1 Cons.prems(2) have "int (length (handles s1) + length cs) < 2 ^ 63" by simp
  from Cons.IH[OF inv1 this rn] len1 show ?case by simp
qed

lemma sys_inv_initial: "sys_inv \<lparr>glob = initial dp, handles = []\<rparr>"
  by (simp add: sys_inv_def uninitialized_def initial_def)

text \<open>
  Claim C1.  Take any run of \<open>NewMfs\<close> and \<open>Close\<close> calls from the initial state in which
  every \<open>Close\<close> is of a live handle (releases never exceed acquires), of fewer than
  \<open>2^63 - 1\<close> calls so that the 64-bit count cannot wrap, and one more such call.  When
  the call takes the number of live handles from zero to one, it performs one construction
  (repository initialised and opened, node built).  While a handle is live before and
  after, it constructs nothing and tears nothing down.  When it releases the last handle,
  it performs one teardown (the node is closed, the repository removed).  With no live
  handle the variables are uninitialised again, so that the next \<open>NewMfs\<close> constructs
  again; with live handles the count is their number.  Closing a live handle always returns.
\<close>

theorem one_construction_one_teardown:
  fixes s :: "'r system"
  assumes "run cs \<lparr>glob = initial dp, handles = []\<rparr> = Some s"
      and "int (length cs) < 2 ^ 63 - 1"
      and "step s c = Some s'"
  shows "(handles s = [] \<and> handles s' \<noteq> [] \<longrightarrow>
           trace (glob s') = trace (glob s) @
             [EvInitRepo (repopath (glob s')), EvOpenRepo (repopath (glob s')), EvNewNode (repopath (glob s'))]) \<and>
         (handles s \<noteq> [] \<and> handles s' \<noteq> [] \<longrightarrow> trace (glob s') = trace (glob s)) \<and>
         (handles s \<noteq> [] \<and> handles s' = [] \<longrightarrow>
           trace (glob s') = trace (glob s) @
             [EvClosed (NodeClose (repopath (glob s))), EvRemoveAll (repopath (glob s))]) \<and>
         (handles s' = [] \<longrightarrow> uninitialized (glob s')) \<and>
         (handles s' \<noteq> [] \<longrightarrow> running (glob s') \<and> buildCount (glob s') = int (length (handles s'))) \<and>
         (\<forall>i < length (handles s). step s (CallClose i) \<noteq> None)"
proof -
  from assms(2) have "int (length (handles \<lparr>glob = initial dp, handles = ([] :: 'r MfsAPI list)\<rparr>) + length cs) < 2 ^ 63"
    by simp
  from run_inv[OF sys_inv_initial this assms(1)]
  have inv: "sys_inv s" and len: "length (handles s) \<le> length cs" by simp_all
  from len assms(2) have b: "int (length (handles s)) < 2 ^ 63 - 1" by simp
  from step_facts[OF inv b assms(3)] have
    f: "sys_inv s'"
      "handles s = [] \<and> handles s' \<noteq> [] \<longrightarrow>
           trace (glob s') = trace (glob s) @
             [EvInitRepo (repopath (glob s')), EvOpenRepo (repopath (glob s')), EvNewNode (repopath (glob s'))]"
      "handles s \<noteq> [] \<and> handles s' \<noteq> [] \<longrightarrow> trace (glob s') = trace (glob s)"
      "handles s \<noteq> [] \<and> handles s' = [] \<longrightarrow>
           trace (glob s') = trace (glob s) @
             [EvClosed (NodeClose (repopath (glob s))), EvRemoveAll (repopath (glob s))]"
    by simp_all
  from f(1) have g: "handles s' = [] \<longrightarrow> uninitialized (glob s')"
    "handles s' \<noteq> [] \<longrightarrow> running (glob s') \<and> buildCount (glob s') = int (length (handles s'))"
    by (simp_all add: sys_inv_def)
  have h: "\<forall>i < length (handles s). step s (CallClose i) \<noteq> None"
    using step_live_close[OF inv] by simp
  from f(2,3,4) g h show ?thesis by blast
qed

lemma exBuild_first: "NewMfs exBuild u t (initial []) = (exRunning, Inr (newMfsAPI u t))"
  by (simp add: NewMfs_def exBuild_def initial_def loadPlugins_def logEv_def Let_def exRunning_def)

lemma exClose_last: "Close exRunning (newMfsAPI u t) = Returns (exClosed, (newMfsAPI u t)\<lparr>lock := True\<rparr>) None"
  by (simp add: Close_def exRunning_def exClosed_def newMfsAPI_def wrap64_def logEv_def Let_def)

theorem one_construction_one_teardown_witness:
  "run [CallNewMfs exBuild ''u'' ''t''] \<lparr>glob = initial [], handles = []\<rparr>
     = Some \<lparr>glob = exRunning, handles = [newMfsAPI ''u'' ''t'' :: unit MfsAPI]\<rparr>
   \<and> int (length [CallNewMfs exBuild ''u'' ''t'']) < 2 ^ 63 - 1
   \<and> step \<lparr>glob = exRunning, handles = [newMfsAPI ''u'' ''t'' :: unit MfsAPI]\<rparr> (CallClose 0)
     = Some \<lparr>glob = exClosed, handles = []\<rparr>
   \<and> trace exClosed = trace exRunning @ [EvClosed (NodeClose (repopath exRunning)), EvRemoveAll (repopath exRunning)]
   \<and> uninitialized exClosed"
proof -
  let ?s1 = "\<lparr>glob = exRunning, handles = [newMfsAPI ''u'' ''t'' :: unit MfsAPI]\<rparr>"
  let ?s2 = "\<lparr>glob = exClosed, handles = ([] :: unit MfsAPI list)\<rparr>"
  have r: "run [CallNewMfs exBuild ''u'' ''t''] \<lparr>glob = initial [], handles = []\<rparr> = Some ?s1"
    by (simp add: exBuild_first)
  have b: "int (length [CallNewMfs exBuild ''u'' ''t'']) < 2 ^ 63 - 1" by simp
  have st: "step ?s1 (CallClose 0) = Some ?s2"
    by (simp add: exClose_last)
  from one_construction_one_teardown[OF r b st] r b st show ?thesis by simp
qed

lemma Close_returns_running:
  assumes "wellformed g" and "Close g h = Returns s e"
  shows "running g \<and> \<not> lock h"
proof -
  from assms(2) have nl: "\<not> lock h" by (auto simp: Close_def split: if_splits)
  have "\<not> uninitialized g"
  proof
    assume "uninitialized g"
    from Close_uninitialized[OF this nl] assms(2) show False by auto
  qed
  with assms(1) nl show ?thesis by (simp add: wellformed_def)
qed

text \<open>
  Claim C3, as stated, fails.  \<open>Close\<close> takes the handle's lock and never releases it, so
  the release that has no acquisition to match, a second \<open>Close\<close> of the one handle
  \<open>NewMfs\<close> issued, is not detected and is not fatal: it blocks for ever on the handle's
  lock, whether the variables are uninitialised by then or the node is still running.
\<close>

theorem repeated_Close_blocks_undetected:
  "Close exRunning (newMfsAPI ''u'' ''t'' :: unit MfsAPI)
     = Returns (exClosed, (newMfsAPI ''u'' ''t'')\<lparr>lock := True\<rparr>) None \<and>
   Close exClosed ((newMfsAPI ''u'' ''t'' :: unit MfsAPI)\<lparr>lock := True\<rparr>) = Blocks \<and>
   Close exRunning ((newMfsAPI ''u'' ''t'' :: unit MfsAPI)\<lparr>lock := True\<rparr>) = Blocks"
  by (simp add: exClose_last Close_blocks)

text \<open>
  Claim C3, amended.  In a well-formed state of the variables (uninitialised, or a count of
  at least one with the node in place) the outcome of \<open>Close\<close> is: on a handle whose lock
  is held, as it is after any \<open>Close\<close> of that handle, it blocks, at any count and before
  it reaches the count; on an unlocked handle at a count that is not positive it panics on
  the nil \<open>closeFunc\<close>, with the variables left uninitialised; on an unlocked handle at a
  positive count it returns nil, leaves the handle locked and without a root, and the
  count one lower, or at the sentinel \<open>-1\<close> after the last release, so never at zero and
  never below the sentinel.  Hence \<open>Close\<close> returns only from a strictly positive count,
  and every later \<open>Close\<close> of the handle it returned blocks.
\<close>

theorem Close_outcomes:
  assumes "wellformed g"
  shows "(lock h \<longrightarrow> Close g h = Blocks) \<and>
         (\<not> lock h \<and> buildCount g \<le> 0 \<longrightarrow>
            (\<exists>g'. Close g h = Panics (g', h\<lparr>lock := True, mroot := None\<rparr>) \<and> uninitialized g')) \<and>
         (\<not> lock h \<and> 0 < buildCount g \<longrightarrow>
            (\<exists>g'. Close g h = Returns (g', h\<lparr>lock := True, mroot := None\<rparr>) None \<and>
                  wellformed g' \<and>
                  buildCount g' = (if buildCount g = 1 then - 1 else buildCount g - 1))) \<and>
         (\<forall>s e. Close g h = Returns s e \<longrightarrow>
            0 < buildCount g \<and> \<not> lock h \<and> (\<forall>g2. Close g2 (snd s) = Blocks))"
proof (intro conjI impI allI)
  assume "lock h"
  then show "Close g h = Blocks" by (rule Close_blocks)
next
  assume a: "\<not> lock h \<and> buildCount g \<le> 0"
  with assms have un: "uninitialized g" by (auto simp: wellformed_def running_def)
  from a have nl: "\<not> lock h" by simp
  from Close_uninitialized[OF un nl]
  show "\<exists>g'. Close g h = Panics (g', h\<lparr>lock := True, mroot := None\<rparr>) \<and> uninitialized g'"
    by blast
next
  assume a: "\<not> lock h \<and> 0 < buildCount g"
  then have nl: "\<not> lock h" by simp
  from a assms have run: "running g" by (auto simp: wellformed_def uninitialized_def)
  show "\<exists>g'. Close g h = Returns (g', h\<lparr>lock := True, mroot := None\<rparr>) None \<and>
                  wellformed g' \<and>
                  buildCount g' = (if buildCount g = 1 then - 1 else buildCount g - 1)"
  proof (cases "buildCount g = 1")
    case True
    from Close_last[OF run True nl] True show ?thesis
      by (auto simp: wellformed_def uninitialized_def)
  next
    case False
    with run have "1 < buildCount g" by (simp add: running_def)
    from Close_shared[OF run this nl] False show ?thesis
      by (auto simp: wellformed_def)
  qed
next
  fix s e assume r: "Close g h = Returns s e"
  from Close_returns_running[OF assms r] have run: "running g" and nl: "\<not> lock h" by simp_all
  from run show "0 < buildCount g" by (simp add: running_def)
  from nl show "\<not> lock h" .
next
  fix s e g2 assume r: "Close g h = Returns s e"
  then have "lock (snd s)"
    by (auto simp: Close_def Let_def split: if_splits option.splits)
  then show "Close g2 (snd s) = Blocks" by (rule Close_blocks)
qed

lemma wellformed_initial: "wellformed (initial dp)"
  by (simp add: wellformed_def uninitialized_def initial_def)

lemma wellformed_exRunning: "wellformed exRunning"
  by (simp add: wellformed_def running_def exRunning_def)

theorem Close_outcomes_witness:
  "wellformed exRunning \<and> \<not> lock (newMfsAPI ''u'' ''t'' :: unit MfsAPI) \<and> 0 < buildCount exRunning \<and>
   Close exRunning (newMfsAPI ''u'' ''t'' :: unit MfsAPI)
     = Returns (exClosed, (newMfsAPI ''u'' ''t'')\<lparr>lock := True\<rparr>) None \<and>
   (\<forall>g2. Close g2 ((newMfsAPI ''u'' ''t'' :: unit MfsAPI)\<lparr>lock := True\<rparr>) = Blocks) \<and>
   wellformed exClosed \<and> buildCount exClosed \<le> 0 \<and>
   Close exClosed (newMfsAPI ''u'' ''t'' :: unit MfsAPI)
     = Panics (logEv [EvRemoveAll []] exClosed, (newMfsAPI ''u'' ''t'')\<lparr>lock := True\<rparr>) \<and>
   uninitialized (logEv [EvRemoveAll []] exClosed)"
proof -
  let ?h = "newMfsAPI ''u'' ''t'' :: unit MfsAPI"
  have c1: "Close exRunning ?h = Returns (exClosed, ?h\<lparr>lock := True\<rparr>) None"
    by (rule exClose_last)
  have c2: "Close exClosed ?h = Panics (logEv [EvRemoveAll []] exClosed, ?h\<lparr>lock := True\<rparr>)"
    by (simp add: Close_def exClosed_def newMfsAPI_def wrap64_def logEv_def Let_def)
  have nl: "\<not> lock ?h" by (simp add: newMfsAPI_def)
  have pos: "0 < buildCount exRunning" by (simp add: exRunning_def)
  have le: "buildCount exClosed \<le> 0" by (simp add: exClosed_def)
  have wc: "wellformed exClosed" by (simp add: wellformed_def uninitialized_def exClosed_def)
  from Close_outcomes[OF wellformed_exRunning, of ?h] c1
  have b: "\<forall>g2. Close g2 (?h\<lparr>lock := True\<rparr>) = Blocks" by simp
  from Close_outcomes[OF wc, of ?h] nl le c2
  have u: "uninitialized (logEv [EvRemoveAll []] exClosed)" by auto
  from wellformed_exRunning nl pos c1 b wc le c2 u show ?thesis by simp
qed

lemma wellformed_NewMfs:
  fixes res :: "error + 'r MfsAPI"
  assumes "wellformed g" and "buildCount g < 2 ^ 63 - 1" and "NewMfs be purl ptoken g = (g', res)"
  shows "wellformed g'"
proof (cases "uninitialized g")
  case True
  show ?thesis
  proof (cases res)
    case (Inl e)
    with assms(3) have "NewMfs be purl ptoken g = (g', (Inl e :: error + 'r MfsAPI))" by simp
    from NewMfs_fail_uninitialized[OF True this] show ?thesis by (simp add: wellformed_def)
  next
    case (Inr h)
    with assms(3) have "NewMfs be purl ptoken g = (g', Inr h)" by simp
    from NewMfs_build_ok[OF True this] show ?thesis by (simp add: wellformed_def)
  qed
next
  case False
  with assms(1) have run: "running g" by (simp add: wellformed_def)
  then have "0 \<le> buildCount g" by (simp add: running_def)
  then have "NewMfs be purl ptoken g =
      (g\<lparr>buildCount := wrap64 (buildCount g + 1)\<rparr>, Inr (newMfsAPI purl ptoken :: 'r MfsAPI))"
    by (rule NewMfs_fast)
  with assms(3) have g': "g' = g\<lparr>buildCount := wrap64 (buildCount g + 1)\<rparr>" by simp
  have "wrap64 (buildCount g + 1) = buildCount g + 1"
    using run assms(2) by (intro wrap64_id) (simp_all add: running_def)
  with g' run assms(2) show ?thesis by (simp add: wellformed_def running_def)
qed

lemma wellformed_Close:
  assumes "wellformed g" and "Close g h = Returns (g', h') e \<or> Close g h = Panics (g', h')"
  shows "wellformed g'"
proof (cases "lock h")
  case True
  with assms(2) show ?thesis by (simp add: Close_blocks)
next
  case False
  show ?thesis
  proof (cases "uninitialized g")
    case True
    from Close_uninitialized[OF True False] assms(2) show ?thesis by (auto simp: wellformed_def)
  next
    case False
    with assms(1) have run: "running g" by (simp add: wellformed_def)
    show ?thesis
    proof (cases "buildCount g = 1")
      case True
      from Close_last[OF run True \<open>\<not> lock h\<close>] assms(2) show ?thesis by (auto simp: wellformed_def)
    next
      case False
      with run have "1 < buildCount g" by (simp add: running_def)
      from Close_shared[OF run this \<open>\<not> lock h\<close>] assms(2) show ?thesis by (auto simp: wellformed_def)
    qed
  qed
qed

subsection \<open>Failed construction\<close>

lemma NewMfs_fails_iff:
  assumes "uninitialized g" and "NewMfs be purl ptoken g = (g', res)"
  shows "(\<exists>e. res = Inl e) =
           ((\<not> plugins g \<and> (NewPluginLoader be \<noteq> None \<or> Initialize be \<noteq> None \<or> Inject be \<noteq> None)) \<or>
            (case configInit be of
               Inl e \<Rightarrow> True
             | Inr peerID \<Rightarrow>
                 (let p = pathJoin be (DefaultPath g) (''ipfs_'' @ peerID)
                  in fsrepoInit be p \<noteq> None \<or> fsrepoOpen be p \<noteq> None \<or>
                     coreNewNode be p \<noteq> None \<or> NewCoreAPI be p \<noteq> None)))"
  using assms
  by (auto simp: NewMfs_def uninitialized_def Let_def loadPlugins_def
      split: if_splits option.splits sum.splits prod.splits)

lemma rolled_back_shapes:
  assumes "evs = [] \<or> evs = [EvInitRepo p, EvRemoveAll p]
          \<or> evs = [EvInitRepo p, EvOpenRepo p, EvClosed (RepoClose p), EvRemoveAll p]
          \<or> evs = [EvInitRepo p, EvOpenRepo p, EvNewNode p, EvClosed (NodeClose p), EvRemoveAll p]"
  shows "(\<forall>q. EvInitRepo q \<in> set evs \<longrightarrow> last evs = EvRemoveAll q) \<and>
         (\<forall>q. EvOpenRepo q \<in> set evs \<longrightarrow>
               EvClosed (RepoClose q) \<in> set evs \<or> EvClosed (NodeClose q) \<in> set evs) \<and>
         (\<forall>q. EvNewNode q \<in> set evs \<longrightarrow> EvClosed (NodeClose q) \<in> set evs)"
  using assms by auto

text \<open>
  Claim C9.  A first construction starts from uninitialised variables.  \<open>NewMfs\<close> then
  returns an error exactly when a step fails: a step of the plugin loader (when the plugins
  were not loaded before), \<open>config.Init\<close>, \<open>fsrepo.Init\<close>, \<open>fsrepo.Open\<close>,
  \<open>core.NewNode\<close> or \<open>coreapi.NewCoreAPI\<close>.  When it does, the variables are
  uninitialised again (sentinel count, no node API, no close function, empty repository
  path), and in the events of the call: a repository that was initialised is removed as
  the last event, a repository that was opened is closed, by its own \<open>Close\<close> or by the
  \<open>Close\<close> of the node built on it, and a node that was built is closed.
\<close>

theorem failed_construction_rolls_back:
  fixes res :: "error + 'r MfsAPI"
  assumes "uninitialized g" and "NewMfs be purl ptoken g = (g', res)"
  shows "((\<exists>e. res = Inl e) =
           ((\<not> plugins g \<and> (NewPluginLoader be \<noteq> None \<or> Initialize be \<noteq> None \<or> Inject be \<noteq> None)) \<or>
            (case configInit be of
               Inl e \<Rightarrow> True
             | Inr peerID \<Rightarrow>
                 (let p = pathJoin be (DefaultPath g) (''ipfs_'' @ peerID)
                  in fsrepoInit be p \<noteq> None \<or> fsrepoOpen be p \<noteq> None \<or>
                     coreNewNode be p \<noteq> None \<or> NewCoreAPI be p \<noteq> None)))) \<and>
         (\<forall>e. res = Inl e \<longrightarrow>
            uninitialized g' \<and>
            (\<exists>evs. trace g' = trace g @ evs \<and>
               (\<forall>q. EvInitRepo q \<in> set evs \<longrightarrow> last evs = EvRemoveAll q) \<and>
               (\<forall>q. EvOpenRepo q \<in> set evs \<longrightarrow>
                     EvClosed (RepoClose q) \<in> set evs \<or> EvClosed (NodeClose q) \<in> set evs) \<and>
               (\<forall>q. EvNewNode q \<in> set evs \<longrightarrow> EvClosed (NodeClose q) \<in> set evs)))"
proof (intro conjI allI impI)
  show "(\<exists>e. res = Inl e) =
           ((\<not> plugins g \<and> (NewPluginLoader be \<noteq> None \<or> Initialize be \<noteq> None \<or> Inject be \<noteq> None)) \<or>
            (case configInit be of
               Inl e \<Rightarrow> True
             | Inr peerID \<Rightarrow>
                 (let p = pathJoin be (DefaultPath g) (''ipfs_'' @ peerID)
                  in fsrepoInit be p \<noteq> None \<or> fsrepoOpen be p \<noteq> None \<or>
                     coreNewNode be p \<noteq> None \<or> NewCoreAPI be p \<noteq> None)))"
    by (rule NewMfs_fails_iff[OF assms])
next
  fix e assume "res = Inl e"
  with assms(2) have f: "NewMfs be purl ptoken g = (g', (Inl e :: error + 'r MfsAPI))" by simp
  from NewMfs_fail_uninitialized[OF assms(1) f] show "uninitialized g'" .
  from NewMfs_fail_trace[OF assms(1) f] obtain p evs where
    tr: "trace g' = trace g @ evs" and
    sh: "evs = [] \<or> evs = [EvInitRepo p, EvRemoveAll p]
          \<or> evs = [EvInitRepo p, EvOpenRepo p, EvClosed (RepoClose p), EvRemoveAll p]
          \<or> evs = [EvInitRepo p, EvOpenRepo p, EvNewNode p, EvClosed (NodeClose p), EvRemoveAll p]"
    by fastforce
  from rolled_back_shapes[OF sh] tr
  show "\<exists>evs. trace g' = trace g @ evs \<and>
               (\<forall>q. EvInitRepo q \<in> set evs \<longrightarrow> last evs = EvRemoveAll q) \<and>
               (\<forall>q. EvOpenRepo q \<in> set evs \<longrightarrow>
                     EvClosed (RepoClose q) \<in> set evs \<or> EvClosed (NodeClose q) \<in> set evs) \<and>
               (\<forall>q. EvNewNode q \<in> set evs \<longrightarrow> EvClosed (NodeClose q) \<in> set evs)"
    by blast
qed

lemma exBuildNoApi_fails:
  "NewMfs exBuildNoApi u t (initial []) =
     ((initial [])\<lparr>plugins := True,
        trace := [EvInitRepo ''ipfs_QmPeer'', EvOpenRepo ''ipfs_QmPeer'', EvNewNode ''ipfs_QmPeer'',
                  EvClosed (NodeClose ''ipfs_QmPeer''), EvRemoveAll ''ipfs_QmPeer'']\<rparr>, Inl ''no api'')"
  by (simp add: NewMfs_def exBuildNoApi_def exBuild_def initial_def loadPlugins_def logEv_def Let_def
      deferRemove_def deferClose_def)

theorem failed_construction_rolls_back_witness:
  "uninitialized (initial []) \<and>
   (NewMfs exBuildNoApi ''u'' ''t'' (initial []) :: global \<times> (error + unit MfsAPI)) =
     ((initial [])\<lparr>plugins := True,
        trace := [EvInitRepo ''ipfs_QmPeer'', EvOpenRepo ''ipfs_QmPeer'', EvNewNode ''ipfs_QmPeer'',
                  EvClosed (NodeClose ''ipfs_QmPeer''), EvRemoveAll ''ipfs_QmPeer'']\<rparr>, Inl ''no api'') \<and>
   uninitialized ((initial [])\<lparr>plugins := True,
        trace := [EvInitRepo ''ipfs_QmPeer'', EvOpenRepo ''ipfs_QmPeer'', EvNewNode ''ipfs_QmPeer'',
                  EvClosed (NodeClose ''ipfs_QmPeer''), EvRemoveAll ''ipfs_QmPeer'']\<rparr>)"
proof -
  have u: "uninitialized (initial [])" by (simp add: uninitialized_def initial_def)
  have f: "(NewMfs exBuildNoApi ''u'' ''t'' (initial []) :: global \<times> (error + unit MfsAPI)) =
     ((initial [])\<lparr>plugins := True,
        trace := [EvInitRepo ''ipfs_QmPeer'', EvOpenRepo ''ipfs_QmPeer'', EvNewNode ''ipfs_QmPeer'',
                  EvClosed (NodeClose ''ipfs_QmPeer''), EvRemoveAll ''ipfs_QmPeer'']\<rparr>, Inl ''no api'')"
    by (rule exBuildNoApi_fails)
  from failed_construction_rolls_back[OF u f] u f show ?thesis by simp
qed

subsection \<open>newRoot and the tree operations\<close>

lemma newRoot_cached: "mroot h = Some r \<Longrightarrow> newRoot env False g h = Returns (g, h) None"
  by (simp add: newRoot_def)

lemma rebuild_error: "rebuild env g h c = Returns (g', h') (Some e) \<Longrightarrow> h' = h"
  by (auto simp: rebuild_def Let_def split: option.splits sum.splits ldnode.splits)

lemma rebuild_panics: "rebuild env g h c = Panics (g', h') \<Longrightarrow> h' = h"
  by (auto simp: rebuild_def Let_def split: option.splits sum.splits ldnode.splits)

lemma rebuild_ok:
  "rebuild env g h c = Returns (g', h') None \<Longrightarrow>
     \<exists>c' r ld. ResolveNode env c = Inr (ProtoNode c') \<and> mfsNewRoot env c' = Inr r \<and>
       rootGetNode env r = Inr ld \<and>
       h' = h\<lparr>mroot := Some r, CID := (case CID h of None \<Rightarrow> None | Some c0 \<Rightarrow> Some (nodeCid ld))\<rparr>"
  by (auto simp: rebuild_def Let_def split: option.splits sum.splits ldnode.splits)

lemma rebuild_steps:
  assumes "nodeApi g = Some api"
  shows "ResolveNode env c = Inl e \<Longrightarrow> rebuild env g h c = Returns (logEv [EvResolve c] g, h) (Some e)"
    and "ResolveNode env c = Inr (OtherNode t c') \<Longrightarrow> rebuild env g h c = Returns (logEv [EvResolve c] g, h) (Some t)"
    and "ResolveNode env c = Inr (ProtoNode c') \<Longrightarrow> mfsNewRoot env c' = Inl e \<Longrightarrow>
           rebuild env g h c = Returns (logEv [EvResolve c] g, h) (Some e)"
    and "ResolveNode env c = Inr (ProtoNode c') \<Longrightarrow> mfsNewRoot env c' = Inr r \<Longrightarrow> rootGetNode env r = Inl e \<Longrightarrow>
           rebuild env g h c = Returns (logEv [EvResolve c] g, h) (Some e)"
    and "ResolveNode env c = Inr (ProtoNode c') \<Longrightarrow> mfsNewRoot env c' = Inr r \<Longrightarrow> rootGetNode env r = Inr ld \<Longrightarrow>
           rebuild env g h c =
             Returns (case mroot h of None \<Rightarrow> logEv [EvResolve c] g | Some old \<Rightarrow> logEv [EvFlushMemFree] (logEv [EvResolve c] g),
                      h\<lparr>mroot := Some r, CID := (case CID h of None \<Rightarrow> None | Some c0 \<Rightarrow> Some (nodeCid ld))\<rparr>) None"
  using assms by (simp_all add: rebuild_def Let_def)

lemma newRoot_uncached:
  assumes "force \<or> mroot h = None" and "\<not> lock h" and "pinclient h = Some pc"
  shows "newRoot env force g h =
     (case pinStep env (logEv [EvGetStatus (case PinID h of None \<Rightarrow> [] | Some s \<Rightarrow> s)] g)
             (GetStatusByID env pc (case PinID h of None \<Rightarrow> [] | Some s \<Rightarrow> s))
             (case CID h of None \<Rightarrow> [] | Some s \<Rightarrow> s) of
        None \<Rightarrow> Panics (logEv [EvGetStatus (case PinID h of None \<Rightarrow> [] | Some s \<Rightarrow> s)] g, h)
      | Some (g1, c) \<Rightarrow> rebuild env g1 h c)"
  using assms by (auto simp: newRoot_def Let_def)

lemma newRoot_error: "newRoot env force g h = Returns (g', h') (Some e) \<Longrightarrow> h' = h"
  by (auto simp: newRoot_def Let_def split: if_splits option.splits prod.splits dest: rebuild_error)

lemma newRoot_panics: "newRoot env force g h = Panics (g', h') \<Longrightarrow> h' = h"
  by (auto simp: newRoot_def Let_def split: if_splits option.splits prod.splits dest: rebuild_panics)

lemma newRoot_rebuilds:
  assumes "force \<or> mroot h = None" and "newRoot env force g h = Returns (g', h') res"
  shows "\<exists>g1 c. rebuild env g1 h c = Returns (g', h') res"
  using assms by (auto simp: newRoot_def Let_def split: if_splits option.splits prod.splits)

lemma newRoot_ok:
  assumes "newRoot env force g h = Returns (g', h') None"
  shows "(\<not> force \<and> mroot h \<noteq> None \<and> h' = h \<and> g' = g) \<or>
     (\<exists>r ld. rootGetNode env r = Inr ld \<and>
        h' = h\<lparr>mroot := Some r, CID := (case CID h of None \<Rightarrow> None | Some c0 \<Rightarrow> Some (nodeCid ld))\<rparr>)"
proof (cases "\<not> force \<and> mroot h \<noteq> None")
  case True
  with assms show ?thesis by (simp add: newRoot_def)
next
  case False
  then have "force \<or> mroot h = None" by blast
  from newRoot_rebuilds[OF this assms] obtain g1 c where "rebuild env g1 h c = Returns (g', h') None"
    by blast
  from rebuild_ok[OF this] show ?thesis by blast
qed

lemma newRoot_ok_root:
  "newRoot env force g h = Returns (g', h') None \<Longrightarrow> mroot h' \<noteq> None \<and> lock h' = lock h"
  by (drule newRoot_ok) auto

lemma withRoot_ok:
  "newRoot env False g h = Returns (g1, h1) None \<Longrightarrow> \<not> lock h1 \<Longrightarrow> mroot h1 = Some r \<Longrightarrow>
     withRoot env g h failed body = body g1 h1 r"
  by (simp add: withRoot_def)

lemma withRoot_error:
  "newRoot env False g h = Returns s (Some e) \<Longrightarrow> withRoot env g h failed body = Returns s (failed e)"
  by (simp add: withRoot_def)

lemma thenWaitpin_eq:
  "rootFlush env r' = (r'', fe) \<Longrightarrow>
     thenWaitpin env g h (r', me) =
       (case me of
          Some e \<Rightarrow> Returns (g, h\<lparr>mroot := Some r'\<rparr>) (Some e)
        | None \<Rightarrow> Returns (g, h\<lparr>mroot := Some r''\<rparr>) (Some (case fe of None \<Rightarrow> ''NotImplement'' | Some e \<Rightarrow> e)))"
  by (simp add: thenWaitpin_def waitpin_def split: option.splits)

text \<open>
  Claim C4.  When \<open>newRoot\<close> returns an error, the handle is as it was: the root installed
  before and the string behind \<open>CID\<close> are unchanged.  When it returns without error, it
  either reused the cached root and changed nothing, or installed the new root and, when
  \<open>CID\<close> is not nil, wrote the content identifier of the new root's node through it.  And
  each step after the pin-status step fails the call: an error of \<open>ResolveNode\<close>, a node
  that is not a \<open>ProtoNode\<close> (the error names its type), an error of \<open>mfs.NewRoot\<close> and
  an error of \<open>GetNode\<close> are returned, with the handle unchanged.
\<close>

theorem newRoot_failure_leaves_handle:
  "(\<forall>g' h' e. newRoot env force g h = Returns (g', h') (Some e) \<longrightarrow> h' = h) \<and>
   (\<forall>g' h'. newRoot env force g h = Returns (g', h') None \<longrightarrow>
      (\<not> force \<and> mroot h \<noteq> None \<and> h' = h) \<or>
      (\<exists>r ld. rootGetNode env r = Inr ld \<and>
         h' = h\<lparr>mroot := Some r, CID := (case CID h of None \<Rightarrow> None | Some c0 \<Rightarrow> Some (nodeCid ld))\<rparr>)) \<and>
   (\<forall>g1 c api. nodeApi g1 = Some api \<longrightarrow>
      (\<forall>e. ResolveNode env c = Inl e \<longrightarrow>
           rebuild env g1 h c = Returns (logEv [EvResolve c] g1, h) (Some e)) \<and>
      (\<forall>t c'. ResolveNode env c = Inr (OtherNode t c') \<longrightarrow>
           rebuild env g1 h c = Returns (logEv [EvResolve c] g1, h) (Some t)) \<and>
      (\<forall>c' e. ResolveNode env c = Inr (ProtoNode c') \<and> mfsNewRoot env c' = Inl e \<longrightarrow>
           rebuild env g1 h c = Returns (logEv [EvResolve c] g1, h) (Some e)) \<and>
      (\<forall>c' r e. ResolveNode env c = Inr (ProtoNode c') \<and> mfsNewRoot env c' = Inr r \<and> rootGetNode env r = Inl e \<longrightarrow>
           rebuild env g1 h c = Returns (logEv [EvResolve c] g1, h) (Some e)))"
proof (intro conjI allI impI)
  fix g' h' e assume "newRoot env force g h = Returns (g', h') (Some e)"
  then show "h' = h" by (rule newRoot_error)
next
  fix g' h' assume "newRoot env force g h = Returns (g', h') None"
  from newRoot_ok[OF this]
  show "(\<not> force \<and> mroot h \<noteq> None \<and> h' = h) \<or>
      (\<exists>r ld. rootGetNode env r = Inr ld \<and>
         h' = h\<lparr>mroot := Some r, CID := (case CID h of None \<Rightarrow> None | Some c0 \<Rightarrow> Some (nodeCid ld))\<rparr>)"
    by blast
qed (simp_all add: rebuild_steps)

lemma exNoResolve_fails:
  "newRoot exEnvNoResolve True exRunning exRooted =
     Returns (logEv [EvGetStatus [], EvResolve ''QmPinned''] exRunning, exRooted) (Some ''context deadline exceeded'')"
  by (simp add: newRoot_def exEnvNoResolve_def exEnv_def exRooted_def pinStep_def rebuild_def
      exRunning_def logEv_def StatusPinned_def Let_def)

theorem newRoot_failure_leaves_handle_witness:
  "newRoot exEnvNoResolve True exRunning exRooted =
     Returns (logEv [EvGetStatus [], EvResolve ''QmPinned''] exRunning, exRooted) (Some ''context deadline exceeded'') \<and>
   mroot exRooted = Some [\<lparr>nlName = ''QmKnown'', nlType = 0, nlSize = 0, nlHash = ''QmKnown''\<rparr>] \<and>
   CID exRooted = Some ''QmRoot''"
  using newRoot_failure_leaves_handle[of exEnvNoResolve True exRunning exRooted] exNoResolve_fails
  by (simp add: exRooted_def)

lemma pinStep_answer:
  assumes "nodeApi g = Some api"
  shows "\<exists>evs. pinStep env g (Inr ps) c =
           Some (logEv evs g, if status ps = StatusPinned then pinCid ps else c)"
proof (cases "AddrInfosFromP2pAddrs env (delegates ps)")
  case (Inl e)
  have "logEv [] g = g" by (simp add: logEv_def)
  with Inl have "pinStep env g (Inr ps) c =
           Some (logEv [] g, if status ps = StatusPinned then pinCid ps else c)"
    by (simp add: pinStep_def Let_def)
  then show ?thesis by blast
next
  case (Inr info)
  with assms have "pinStep env g (Inr ps) c =
           Some (logEv (map EvConnect info) g, if status ps = StatusPinned then pinCid ps else c)"
    by (simp add: pinStep_def Let_def)
  then show ?thesis by blast
qed

lemma logEv_logEv: "logEv b (logEv a g) = logEv (a @ b) g"
  by (simp add: logEv_def)

lemma nodeApi_logEv: "nodeApi (logEv evs g) = nodeApi g"
  by (simp add: logEv_def)

text \<open>
  Claim C5.  Let \<open>newRoot\<close> run its resolution (forced, or no root cached) on an unlocked
  handle with the node in place, and let the status query succeed.  When the status is
  \<open>pinned\<close>, the rebuild is the one from the pin's content identifier, whatever \<open>CID\<close>
  held: that identifier is resolved, and when the steps pass the root built from it is
  installed.  For any other status the rebuild is the one from the identifier \<open>CID\<close>
  held (the empty string when \<open>CID\<close> is nil).
\<close>

theorem pinned_target_overrides_cid:
  assumes "force \<or> mroot h = None" and "\<not> lock h" and "pinclient h = Some pc"
      and "nodeApi g = Some api"
      and "GetStatusByID env pc (case PinID h of None \<Rightarrow> [] | Some s \<Rightarrow> s) = Inr ps"
  shows "(status ps = StatusPinned \<longrightarrow>
            (\<exists>evs. newRoot env force g h = rebuild env (logEv evs g) h (pinCid ps)) \<and>
            (\<forall>c r ld. ResolveNode env (pinCid ps) = Inr (ProtoNode c) \<and> mfsNewRoot env c = Inr r \<and>
                 rootGetNode env r = Inr ld \<longrightarrow>
               (\<exists>g'. newRoot env force g h =
                   Returns (g', h\<lparr>mroot := Some r,
                                 CID := (case CID h of None \<Rightarrow> None | Some c0 \<Rightarrow> Some (nodeCid ld))\<rparr>) None))) \<and>
         (status ps \<noteq> StatusPinned \<longrightarrow>
            (\<exists>evs. newRoot env force g h =
                rebuild env (logEv evs g) h (case CID h of None \<Rightarrow> [] | Some s \<Rightarrow> s)))"
proof -
  let ?pinid = "case PinID h of None \<Rightarrow> [] | Some s \<Rightarrow> s"
  let ?known = "case CID h of None \<Rightarrow> [] | Some s \<Rightarrow> s"
  let ?c = "if status ps = StatusPinned then pinCid ps else ?known"
  have "nodeApi (logEv [EvGetStatus ?pinid] g) = Some api"
    using assms(4) by (simp add: nodeApi_logEv)
  from pinStep_answer[OF this, of env ps ?known] obtain evs where
    "pinStep env (logEv [EvGetStatus ?pinid] g) (Inr ps) ?known = Some (logEv (EvGetStatus ?pinid # evs) g, ?c)"
    by (auto simp: logEv_logEv)
  with newRoot_uncached[OF assms(1-3), of env g] assms(5)
  have eq: "newRoot env force g h = rebuild env (logEv (EvGetStatus ?pinid # evs) g) h ?c"
    by simp
  have api: "nodeApi (logEv (EvGetStatus ?pinid # evs) g) = Some api"
    using assms(4) by (simp add: nodeApi_logEv)
  show ?thesis
  proof (intro conjI impI allI)
    assume "status ps = StatusPinned"
    with eq show "\<exists>evs. newRoot env force g h = rebuild env (logEv evs g) h (pinCid ps)"
      by auto
  next
    fix c r ld
    assume p: "status ps = StatusPinned"
      and "ResolveNode env (pinCid ps) = Inr (ProtoNode c) \<and> mfsNewRoot env c = Inr r \<and> rootGetNode env r = Inr ld"
    then have a: "ResolveNode env (pinCid ps) = Inr (ProtoNode c)" "mfsNewRoot env c = Inr r" "rootGetNode env r = Inr ld"
      by simp_all
    from rebuild_steps(5)[OF api a, of h] eq p
    show "\<exists>g'. newRoot env force g h =
                   Returns (g', h\<lparr>mroot := Some r,
                                 CID := (case CID h of None \<Rightarrow> None | Some c0 \<Rightarrow> Some (nodeCid ld))\<rparr>) None"
      by simp
  next
    assume "status ps \<noteq> StatusPinned"
    with eq show "\<exists>evs. newRoot env force g h = rebuild env (logEv evs g) h ?known"
      by auto
  qed
qed

lemma exPinned_builds:
  "newRoot exEnv False exRunning exHandle =
     Returns (logEv [EvGetStatus [], EvResolve ''QmPinned''] exRunning,
              exHandle\<lparr>mroot := Some [\<lparr>nlName = ''QmPinned'', nlType = 0, nlSize = 0, nlHash = ''QmPinned''\<rparr>],
                       CID := Some ''QmRoot''\<rparr>) None"
  by (simp add: newRoot_def exEnv_def exHandle_def pinStep_def rebuild_def
      exRunning_def logEv_def StatusPinned_def Let_def)

theorem pinned_target_overrides_cid_witness:
  "CID exHandle = Some ''QmKnown'' \<and>
   GetStatusByID exEnv (''u'', ''t'') [] = Inr \<lparr>status = ''pinned'', pinCid = ''QmPinned'', delegates = []\<rparr> \<and>
   (\<exists>evs. newRoot exEnv False exRunning exHandle = rebuild exEnv (logEv evs exRunning) exHandle ''QmPinned'') \<and>
   newRoot exEnv False exRunning exHandle =
     Returns (logEv [EvGetStatus [], EvResolve ''QmPinned''] exRunning,
              exHandle\<lparr>mroot := Some [\<lparr>nlName = ''QmPinned'', nlType = 0, nlSize = 0, nlHash = ''QmPinned''\<rparr>],
                       CID := Some ''QmRoot''\<rparr>) None"
proof -
  have 1: "False \<or> mroot exHandle = None" and 2: "\<not> lock exHandle"
    and 3: "pinclient exHandle = Some (''u'', ''t'')" and c: "CID exHandle = Some ''QmKnown''"
    by (simp_all add: exHandle_def)
  have 4: "nodeApi exRunning = Some (CoreAPI ''ipfs_QmPeer'')" by (simp add: exRunning_def)
  have 5: "GetStatusByID exEnv (''u'', ''t'') (case PinID exHandle of None \<Rightarrow> [] | Some s \<Rightarrow> s)
             = Inr \<lparr>status = ''pinned'', pinCid = ''QmPinned'', delegates = []\<rparr>"
    by (simp add: exEnv_def)
  from pinned_target_overrides_cid[OF 1 2 3 4 5]
  have "\<exists>evs. newRoot exEnv False exRunning exHandle = rebuild exEnv (logEv evs exRunning) exHandle ''QmPinned''"
    by (simp add: StatusPinned_def)
  with c exPinned_builds show ?thesis by (simp add: exEnv_def)
qed

lemma withRoot_cached:
  "mroot h = Some r \<Longrightarrow>
     withRoot env g h failed body = (if lock h then Blocks else body g h r)"
  by (simp add: withRoot_def newRoot_cached)

lemma thenWaitpin_root:
  "thenWaitpin env g h res = Returns s e \<Longrightarrow> mroot (snd s) \<noteq> None"
  by (auto simp: thenWaitpin_def split: prod.splits option.splits)

text \<open>
  Claim C6.  On a handle that holds a root, \<open>newRoot(false)\<close> returns at once, with
  nothing changed and no event.  So \<open>List\<close>, \<open>Mkdir\<close>, \<open>Mv\<close> and \<open>Unlink\<close> give
  the same outcome whatever the pin service, the address parser, \<open>ResolveNode\<close>,
  \<open>mfs.NewRoot\<close> and \<open>GetNode\<close> would answer, and \<open>Put\<close>, which resolves the
  content it attaches, the same whatever the pin service, the address parser,
  \<open>mfs.NewRoot\<close> and \<open>GetNode\<close> would answer.  When such an operation returns, the
  handle still holds a root (\<open>List\<close> leaves the handle as it was), so the operations
  that follow reuse it as well.
\<close>

theorem cached_root_is_reused:
  assumes "mroot h = Some r"
  shows "newRoot env False g h = Returns (g, h) None \<and>
         MfsList (env\<lparr>GetStatusByID := q, AddrInfosFromP2pAddrs := a, ResolveNode := rn,
                      mfsNewRoot := nr, rootGetNode := gn\<rparr>) g h pth = MfsList env g h pth \<and>
         Mkdir (env\<lparr>GetStatusByID := q, AddrInfosFromP2pAddrs := a, ResolveNode := rn,
                    mfsNewRoot := nr, rootGetNode := gn\<rparr>) g h pth = Mkdir env g h pth \<and>
         Mv (env\<lparr>GetStatusByID := q, AddrInfosFromP2pAddrs := a, ResolveNode := rn,
                 mfsNewRoot := nr, rootGetNode := gn\<rparr>) g h src dst = Mv env g h src dst \<and>
         Unlink (env\<lparr>GetStatusByID := q, AddrInfosFromP2pAddrs := a, ResolveNode := rn,
                     mfsNewRoot := nr, rootGetNode := gn\<rparr>) g h pth fname = Unlink env g h pth fname \<and>
         Put (env\<lparr>GetStatusByID := q, AddrInfosFromP2pAddrs := a,
                  mfsNewRoot := nr, rootGetNode := gn\<rparr>) g h pth nodecid rc = Put env g h pth nodecid rc \<and>
         (\<forall>s res. MfsList env g h pth = Returns s res \<longrightarrow> s = (g, h)) \<and>
         (\<forall>s e. Mkdir env g h pth = Returns s e \<or> Mv env g h src dst = Returns s e \<or>
                 Unlink env g h pth fname = Returns s e \<or> Put env g h pth nodecid rc = Returns s e
                 \<longrightarrow> mroot (snd s) \<noteq> None)"
proof (intro conjI allI impI)
  show "newRoot env False g h = Returns (g, h) None"
    using assms by (rule newRoot_cached)
  show "MfsList (env\<lparr>GetStatusByID := q, AddrInfosFromP2pAddrs := a, ResolveNode := rn,
                      mfsNewRoot := nr, rootGetNode := gn\<rparr>) g h pth = MfsList env g h pth"
    using assms by (simp add: MfsList_def withRoot_cached listDir_def toNodeObj_def split: sum.splits fsnode.splits)
  show "Mkdir (env\<lparr>GetStatusByID := q, AddrInfosFromP2pAddrs := a, ResolveNode := rn,
                    mfsNewRoot := nr, rootGetNode := gn\<rparr>) g h pth = Mkdir env g h pth"
    using assms by (simp add: Mkdir_def withRoot_cached thenWaitpin_def waitpin_def split: prod.splits option.splits)
  show "Mv (env\<lparr>GetStatusByID := q, AddrInfosFromP2pAddrs := a, ResolveNode := rn,
                 mfsNewRoot := nr, rootGetNode := gn\<rparr>) g h src dst = Mv env g h src dst"
    using assms by (simp add: Mv_def withRoot_cached thenWaitpin_def waitpin_def split: prod.splits option.splits)
  show "Unlink (env\<lparr>GetStatusByID := q, AddrInfosFromP2pAddrs := a, ResolveNode := rn,
                     mfsNewRoot := nr, rootGetNode := gn\<rparr>) g h pth fname = Unlink env g h pth fname"
    using assms by (simp add: Unlink_def withRoot_cached thenWaitpin_def waitpin_def split: prod.splits option.splits sum.splits fsnode.splits)
  show "Put (env\<lparr>GetStatusByID := q, AddrInfosFromP2pAddrs := a,
                  mfsNewRoot := nr, rootGetNode := gn\<rparr>) g h pth nodecid rc = Put env g h pth nodecid rc"
    using assms by (simp add: Put_def withRoot_cached thenWaitpin_def waitpin_def putResolve_def split: prod.splits option.splits sum.splits)
next
  fix s res assume "MfsList env g h pth = Returns s res"
  with assms show "s = (g, h)"
    by (simp add: MfsList_def withRoot_cached split: if_splits)
next
  fix s e
  assume "Mkdir env g h pth = Returns s e \<or> Mv env g h src dst = Returns s e \<or>
          Unlink env g h pth fname = Returns s e \<or> Put env g h pth nodecid rc = Returns s e"
  with assms show "mroot (snd s) \<noteq> None"
    by (auto simp: Mkdir_def Mv_def Unlink_def Put_def withRoot_cached
        split: if_splits option.splits sum.splits fsnode.splits prod.splits dest: thenWaitpin_root)
qed

lemma exList_cached:
  "MfsList exEnvPinDown exRunning exRooted ''/'' =
     Returns (exRunning, exRooted) (Inr [\<lparr>Id = ''QmKnown'', Name = ''QmKnown'', Size = 0, Isdir = False\<rparr>])"
  by (simp add: MfsList_def withRoot_def newRoot_def exEnvPinDown_def exEnv_def exRooted_def
      listDir_def toNodeObj_def)

theorem cached_root_is_reused_witness:
  "mroot exRooted = Some [\<lparr>nlName = ''QmKnown'', nlType = 0, nlSize = 0, nlHash = ''QmKnown''\<rparr>] \<and>
   newRoot exEnvPinDown False exRunning exRooted = Returns (exRunning, exRooted) None \<and>
   MfsList exEnvPinDown exRunning exRooted ''/'' =
     Returns (exRunning, exRooted) (Inr [\<lparr>Id = ''QmKnown'', Name = ''QmKnown'', Size = 0, Isdir = False\<rparr>])"
proof -
  have m: "mroot exRooted = Some [\<lparr>nlName = ''QmKnown'', nlType = 0, nlSize = 0, nlHash = ''QmKnown''\<rparr>]"
    by (simp add: exRooted_def)
  from cached_root_is_reused[OF m, of exEnvPinDown exRunning] m exList_cached
  show ?thesis by simp
qed

subsection \<open>The mutating operations\<close>

lemma Mkdir_eq:
  assumes "newRoot env False g h = Returns (g1, h1) None" and "\<not> lock h1" and "mroot h1 = Some r"
      and "mfsMkdir env r pth = (r', me)" and "rootFlush env r' = (r'', fe)"
  shows "Mkdir env g h pth =
       (case me of
          Some e \<Rightarrow> Returns (g1, h1\<lparr>mroot := Some r'\<rparr>) (Some e)
        | None \<Rightarrow> Returns (g1, h1\<lparr>mroot := Some r''\<rparr>) (Some (case fe of None \<Rightarrow> ''NotImplement'' | Some e \<Rightarrow> e)))"
  using assms by (simp add: Mkdir_def withRoot_ok thenWaitpin_eq)

lemma Mv_eq:
  assumes "newRoot env False g h = Returns (g1, h1) None" and "\<not> lock h1" and "mroot h1 = Some r"
      and "mfsMv env r src dst = (r', me)" and "rootFlush env r' = (r'', fe)"
  shows "Mv env g h src dst =
       (case me of
          Some e \<Rightarrow> Returns (g1, h1\<lparr>mroot := Some r'\<rparr>) (Some e)
        | None \<Rightarrow> Returns (g1, h1\<lparr>mroot := Some r''\<rparr>) (Some (case fe of None \<Rightarrow> ''NotImplement'' | Some e \<Rightarrow> e)))"
  using assms by (simp add: Mv_def withRoot_ok thenWaitpin_eq)

lemma Unlink_eq:
  assumes "newRoot env False g h = Returns (g1, h1) None" and "\<not> lock h1" and "mroot h1 = Some r"
      and "mfsLookup env r pth = Inr (Directory d)"
      and "dirUnlink env r d fname = (r', me)" and "rootFlush env r' = (r'', fe)"
  shows "Unlink env g h pth fname =
       (case me of
          Some e \<Rightarrow> Returns (g1, h1\<lparr>mroot := Some r'\<rparr>) (Some e)
        | None \<Rightarrow> Returns (g1, h1\<lparr>mroot := Some r''\<rparr>) (Some (case fe of None \<Rightarrow> ''NotImplement'' | Some e \<Rightarrow> e)))"
  using assms by (simp add: Unlink_def withRoot_ok thenWaitpin_eq)

lemma Put_eq:
  assumes "newRoot env False g h = Returns (g1, h1) None" and "\<not> lock h1" and "mroot h1 = Some r"
      and "nodeApi g1 = Some api" and "putResolve env g1 nodecid rc = (g2, Inr n)"
      and "mfsPutNode env r pth n = (r', me)" and "rootFlush env r' = (r'', fe)"
  shows "Put env g h pth nodecid rc =
       (case me of
          Some e \<Rightarrow> Returns (g2, h1\<lparr>mroot := Some r'\<rparr>) (Some e)
        | None \<Rightarrow> Returns (g2, h1\<lparr>mroot := Some r''\<rparr>) (Some (case fe of None \<Rightarrow> ''NotImplement'' | Some e \<Rightarrow> e)))"
  using assms by (simp add: Put_def withRoot_ok thenWaitpin_eq)

lemma Unlink_panics:
  assumes "newRoot env False g h = Returns (g1, h1) None" and "\<not> lock h1" and "mroot h1 = Some r"
      and "mfsLookup env r pth = Inl e \<or> mfsLookup env r pth = Inr File"
  shows "Unlink env g h pth fname = Panics (g1, h1)"
  using assms by (auto simp: Unlink_def withRoot_ok)

text \<open>
  Claim C2.  Let \<open>newRoot(false)\<close> have passed and the handle be unlocked, with root \<open>r\<close>.
  For \<open>Mkdir\<close>, \<open>Mv\<close>, \<open>Put\<close> (once the content node is resolved) and \<open>Unlink\<close>
  (once the path is found to be a directory): when the mutation of go-mfs reports no
  error, the root it left is flushed and the operation returns, on the flushed root, the
  error \<open>NotImplement\<close> when the flush reports none, and the error of the flush itself
  when it reports one.  The two are told apart by their message, so whenever the flush's
  error does not itself read \<open>NotImplement\<close>.
\<close>

theorem flush_error_or_NotImplement:
  assumes "newRoot env False g h = Returns (g1, h1) None" and "\<not> lock h1" and "mroot h1 = Some r"
  shows "(\<forall>r' r'' fe. mfsMkdir env r pth = (r', None) \<and> rootFlush env r' = (r'', fe) \<longrightarrow>
            Mkdir env g h pth =
              Returns (g1, h1\<lparr>mroot := Some r''\<rparr>) (Some (case fe of None \<Rightarrow> ''NotImplement'' | Some e \<Rightarrow> e))) \<and>
         (\<forall>r' r'' fe. mfsMv env r src dst = (r', None) \<and> rootFlush env r' = (r'', fe) \<longrightarrow>
            Mv env g h src dst =
              Returns (g1, h1\<lparr>mroot := Some r''\<rparr>) (Some (case fe of None \<Rightarrow> ''NotImplement'' | Some e \<Rightarrow> e))) \<and>
         (\<forall>api g2 n r' r'' fe. nodeApi g1 = Some api \<and> putResolve env g1 nodecid rc = (g2, Inr n) \<and>
              mfsPutNode env r pth n = (r', None) \<and> rootFlush env r' = (r'', fe) \<longrightarrow>
            Put env g h pth nodecid rc =
              Returns (g2, h1\<lparr>mroot := Some r''\<rparr>) (Some (case fe of None \<Rightarrow> ''NotImplement'' | Some e \<Rightarrow> e))) \<and>
         (\<forall>d r' r'' fe. mfsLookup env r pth = Inr (Directory d) \<and> dirUnlink env r d fname = (r', None) \<and>
              rootFlush env r' = (r'', fe) \<longrightarrow>
            Unlink env g h pth fname =
              Returns (g1, h1\<lparr>mroot := Some r''\<rparr>) (Some (case fe of None \<Rightarrow> ''NotImplement'' | Some e \<Rightarrow> e)))"
proof (intro conjI allI impI)
  fix r' r'' fe assume "mfsMkdir env r pth = (r', None) \<and> rootFlush env r' = (r'', fe)"
  then have "mfsMkdir env r pth = (r', None)" "rootFlush env r' = (r'', fe)" by simp_all
  from Mkdir_eq[OF assms this]
  show "Mkdir env g h pth =
      Returns (g1, h1\<lparr>mroot := Some r''\<rparr>) (Some (case fe of None \<Rightarrow> ''NotImplement'' | Some e \<Rightarrow> e))"
    by simp
next
  fix r' r'' fe assume "mfsMv env r src dst = (r', None) \<and> rootFlush env r' = (r'', fe)"
  then have "mfsMv env r src dst = (r', None)" "rootFlush env r' = (r'', fe)" by simp_all
  from Mv_eq[OF assms this]
  show "Mv env g h src dst =
      Returns (g1, h1\<lparr>mroot := Some r''\<rparr>) (Some (case fe of None \<Rightarrow> ''NotImplement'' | Some e \<Rightarrow> e))"
    by simp
next
  fix api g2 n r' r'' fe
  assume "nodeApi g1 = Some api \<and> putResolve env g1 nodecid rc = (g2, Inr n) \<and>
              mfsPutNode env r pth n = (r', None) \<and> rootFlush env r' = (r'', fe)"
  then have "nodeApi g1 = Some api" "putResolve env g1 nodecid rc = (g2, Inr n)"
    "mfsPutNode env r pth n = (r', None)" "rootFlush env r' = (r'', fe)" by simp_all
  from Put_eq[OF assms this]
  show "Put env g h pth nodecid rc =
      Returns (g2, h1\<lparr>mroot := Some r''\<rparr>) (Some (case fe of None \<Rightarrow> ''NotImplement'' | Some e \<Rightarrow> e))"
    by simp
next
  fix d r' r'' fe
  assume "mfsLookup env r pth = Inr (Directory d) \<and> dirUnlink env r d fname = (r', None) \<and>
              rootFlush env r' = (r'', fe)"
  then have "mfsLookup env r pth = Inr (Directory d)" "dirUnlink env r d fname = (r', None)"
    "rootFlush env r' = (r'', fe)" by simp_all
  from Unlink_eq[OF assms this]
  show "Unlink env g h pth fname =
      Returns (g1, h1\<lparr>mroot := Some r''\<rparr>) (Some (case fe of None \<Rightarrow> ''NotImplement'' | Some e \<Rightarrow> e))"
    by simp
qed


lemma exRooted_newRoot: "newRoot env False g exRooted = Returns (g, exRooted) None"
  by (simp add: newRoot_def exRooted_def)

lemma exMkdir:
  "Mkdir exEnv exRunning exRooted ''docs'' =
     Returns (exRunning,
              exRooted\<lparr>mroot := Some [\<lparr>nlName = ''QmKnown'', nlType = 0, nlSize = 0, nlHash = ''QmKnown''\<rparr>,
                                      \<lparr>nlName = ''docs'', nlType = 1, nlSize = 0, nlHash = ''QmDir''\<rparr>]\<rparr>)
             (Some ''NotImplement'')"
proof -
  let ?r = "[\<lparr>nlName = ''QmKnown'', nlType = 0, nlSize = 0, nlHash = ''QmKnown''\<rparr>]"
  let ?r' = "[\<lparr>nlName = ''QmKnown'', nlType = 0, nlSize = 0, nlHash = ''QmKnown''\<rparr>,
              \<lparr>nlName = ''docs'', nlType = 1, nlSize = 0, nlHash = ''QmDir''\<rparr>]"
  have 2: "\<not> lock exRooted" and 3: "mroot exRooted = Some ?r" by (simp_all add: exRooted_def)
  have 4: "mfsMkdir exEnv ?r ''docs'' = (?r', None)" and 5: "rootFlush exEnv ?r' = (?r', None)"
    by (simp_all add: exEnv_def)
  from Mkdir_eq[OF exRooted_newRoot 2 3 4 5] show ?thesis by simp
qed

theorem flush_error_or_NotImplement_witness:
  "newRoot exEnv False exRunning exRooted = Returns (exRunning, exRooted) None \<and>
   \<not> lock exRooted \<and>
   mfsMkdir exEnv [\<lparr>nlName = ''QmKnown'', nlType = 0, nlSize = 0, nlHash = ''QmKnown''\<rparr>] ''docs'' =
     ([\<lparr>nlName = ''QmKnown'', nlType = 0, nlSize = 0, nlHash = ''QmKnown''\<rparr>,
       \<lparr>nlName = ''docs'', nlType = 1, nlSize = 0, nlHash = ''QmDir''\<rparr>], None) \<and>
   Mkdir exEnv exRunning exRooted ''docs'' =
     Returns (exRunning,
              exRooted\<lparr>mroot := Some [\<lparr>nlName = ''QmKnown'', nlType = 0, nlSize = 0, nlHash = ''QmKnown''\<rparr>,
                                      \<lparr>nlName = ''docs'', nlType = 1, nlSize = 0, nlHash = ''QmDir''\<rparr>]\<rparr>)
             (Some ''NotImplement'')"
proof -
  let ?r = "[\<lparr>nlName = ''QmKnown'', nlType = 0, nlSize = 0, nlHash = ''QmKnown''\<rparr>]"
  let ?r' = "[\<lparr>nlName = ''QmKnown'', nlType = 0, nlSize = 0, nlHash = ''QmKnown''\<rparr>,
              \<lparr>nlName = ''docs'', nlType = 1, nlSize = 0, nlHash = ''QmDir''\<rparr>]"
  have 1: "newRoot exEnv False exRunning exRooted = Returns (exRunning, exRooted) None"
    by (rule exRooted_newRoot)
  have 2: "\<not> lock exRooted" and 3: "mroot exRooted = Some ?r" by (simp_all add: exRooted_def)
  have 4: "mfsMkdir exEnv ?r ''docs'' = (?r', None)" and 5: "rootFlush exEnv ?r' = (?r', None)"
    by (simp_all add: exEnv_def)
  from flush_error_or_NotImplement[OF 1 2 3, of "''docs''"] 4 5
  have "Mkdir exEnv exRunning exRooted ''docs'' =
          Returns (exRunning, exRooted\<lparr>mroot := Some ?r'\<rparr>) (Some ''NotImplement'')"
    by simp
  with 1 2 4 show ?thesis by simp
qed

text \<open>
  Claim C10.  In the same situation, for each of \<open>Mkdir\<close>, \<open>Mv\<close>, \<open>Put\<close> (with the
  content node resolved) and \<open>Unlink\<close> (with the path a directory).  When go-mfs's
  mutation and the flush both pass, the operation returns the error \<open>NotImplement\<close>, and
  yet the handle it leaves holds the root as mutated and flushed, and a \<open>List\<close> that
  follows reads that root.  Conversely, when the operation returns \<open>NotImplement\<close>, and
  neither the mutation nor the flush reported an error with that very message, then both
  passed and the handle holds the mutated, flushed root, which a following \<open>List\<close> reads.
\<close>

theorem NotImplement_with_applied_mutation:
  assumes "newRoot env False g h = Returns (g1, h1) None" and "\<not> lock h1" and "mroot h1 = Some r"
  shows "(\<forall>r' r''. mfsMkdir env r pth = (r', None) \<and> rootFlush env r' = (r'', None) \<longrightarrow>
            Mkdir env g h pth = Returns (g1, h1\<lparr>mroot := Some r''\<rparr>) (Some ''NotImplement'') \<and>
            MfsList env g1 (h1\<lparr>mroot := Some r''\<rparr>) p =
              Returns (g1, h1\<lparr>mroot := Some r''\<rparr>) (listDir env r'' p)) \<and>
         (\<forall>r' me r'' fe s.
            mfsMkdir env r pth = (r', me) \<and> rootFlush env r' = (r'', fe) \<and>
            me \<noteq> Some ''NotImplement'' \<and> fe \<noteq> Some ''NotImplement'' \<and>
            Mkdir env g h pth = Returns s (Some ''NotImplement'') \<longrightarrow>
              me = None \<and> fe = None \<and> s = (g1, h1\<lparr>mroot := Some r''\<rparr>) \<and>
              MfsList env (fst s) (snd s) p = Returns s (listDir env r'' p)) \<and>
         (\<forall>r' r''. mfsMv env r src dst = (r', None) \<and> rootFlush env r' = (r'', None) \<longrightarrow>
            Mv env g h src dst = Returns (g1, h1\<lparr>mroot := Some r''\<rparr>) (Some ''NotImplement'') \<and>
            MfsList env g1 (h1\<lparr>mroot := Some r''\<rparr>) p =
              Returns (g1, h1\<lparr>mroot := Some r''\<rparr>) (listDir env r'' p)) \<and>
         (\<forall>r' me r'' fe s.
            mfsMv env r src dst = (r', me) \<and> rootFlush env r' = (r'', fe) \<and>
            me \<noteq> Some ''NotImplement'' \<and> fe \<noteq> Some ''NotImplement'' \<and>
            Mv env g h src dst = Returns s (Some ''NotImplement'') \<longrightarrow>
              me = None \<and> fe = None \<and> s = (g1, h1\<lparr>mroot := Some r''\<rparr>) \<and>
              MfsList env (fst s) (snd s) p = Returns s (listDir env r'' p)) \<and>
         (\<forall>api g2 n r' r''. nodeApi g1 = Some api \<and> putResolve env g1 nodecid rc = (g2, Inr n) \<and>
            mfsPutNode env r ppth n = (r', None) \<and> rootFlush env r' = (r'', None) \<longrightarrow>
            Put env g h ppth nodecid rc = Returns (g2, h1\<lparr>mroot := Some r''\<rparr>) (Some ''NotImplement'') \<and>
            MfsList env g2 (h1\<lparr>mroot := Some r''\<rparr>) p =
              Returns (g2, h1\<lparr>mroot := Some r''\<rparr>) (listDir env r'' p)) \<and>
         (\<forall>api g2 n r' me r'' fe s.
            nodeApi g1 = Some api \<and> putResolve env g1 nodecid rc = (g2, Inr n) \<and>
            mfsPutNode env r ppth n = (r', me) \<and> rootFlush env r' = (r'', fe) \<and>
            me \<noteq> Some ''NotImplement'' \<and> fe \<noteq> Some ''NotImplement'' \<and>
            Put env g h ppth nodecid rc = Returns s (Some ''NotImplement'') \<longrightarrow>
              me = None \<and> fe = None \<and> s = (g2, h1\<lparr>mroot := Some r''\<rparr>) \<and>
              MfsList env (fst s) (snd s) p = Returns s (listDir env r'' p)) \<and>
         (\<forall>d r' r''. mfsLookup env r upth = Inr (Directory d) \<and>
            dirUnlink env r d fname = (r', None) \<and> rootFlush env r' = (r'', None) \<longrightarrow>
            Unlink env g h upth fname = Returns (g1, h1\<lparr>mroot := Some r''\<rparr>) (Some ''NotImplement'') \<and>
            MfsList env g1 (h1\<lparr>mroot := Some r''\<rparr>) p =
              Returns (g1, h1\<lparr>mroot := Some r''\<rparr>) (listDir env r'' p)) \<and>
         (\<forall>d r' me r'' fe s.
            mfsLookup env r upth = Inr (Directory d) \<and>
            dirUnlink env r d fname = (r', me) \<and> rootFlush env r' = (r'', fe) \<and>
            me \<noteq> Some ''NotImplement'' \<and> fe \<noteq> Some ''NotImplement'' \<and>
            Unlink env g h upth fname = Returns s (Some ''NotImplement'') \<longrightarrow>
              me = None \<and> fe = None \<and> s = (g1, h1\<lparr>mroot := Some r''\<rparr>) \<and>
              MfsList env (fst s) (snd s) p = Returns s (listDir env r'' p))"
proof -
  have lst: "\<And>g' r''. MfsList env g' (h1\<lparr>mroot := Some r''\<rparr>) p =
                 Returns (g', h1\<lparr>mroot := Some r''\<rparr>) (listDir env r'' p)"
    using assms(2) by (simp add: MfsList_def withRoot_def newRoot_def)
  have pick: "\<And>opr ga gb r' r'' me fe s.
      opr = (case me of
               Some e \<Rightarrow> Returns (ga, h1\<lparr>mroot := Some r'\<rparr>) (Some e)
             | None \<Rightarrow> Returns (gb, h1\<lparr>mroot := Some r''\<rparr>)
                         (Some (case fe of None \<Rightarrow> ''NotImplement'' | Some e \<Rightarrow> e))) \<Longrightarrow>
      me \<noteq> Some ''NotImplement'' \<Longrightarrow> fe \<noteq> Some ''NotImplement'' \<Longrightarrow>
      opr = Returns s (Some ''NotImplement'') \<Longrightarrow>
      me = None \<and> fe = None \<and> s = (gb, h1\<lparr>mroot := Some r''\<rparr>) \<and>
      MfsList env (fst s) (snd s) p = Returns s (listDir env r'' p)"
    by (auto simp: lst split: option.splits)
  have mkf: "(\<forall>r' r''. mfsMkdir env r pth = (r', None) \<and> rootFlush env r' = (r'', None) \<longrightarrow>
            Mkdir env g h pth = Returns (g1, h1\<lparr>mroot := Some r''\<rparr>) (Some ''NotImplement'') \<and>
            MfsList env g1 (h1\<lparr>mroot := Some r''\<rparr>) p =
              Returns (g1, h1\<lparr>mroot := Some r''\<rparr>) (listDir env r'' p))"
  proof (intro allI impI)
    fix r' r''
    assume a: "mfsMkdir env r pth = (r', None) \<and> rootFlush env r' = (r'', None)"
    then have b: "mfsMkdir env r pth = (r', None)" "rootFlush env r' = (r'', None)" by simp_all
    from Mkdir_eq[OF assms b]
    show "Mkdir env g h pth = Returns (g1, h1\<lparr>mroot := Some r''\<rparr>) (Some ''NotImplement'') \<and>
            MfsList env g1 (h1\<lparr>mroot := Some r''\<rparr>) p =
              Returns (g1, h1\<lparr>mroot := Some r''\<rparr>) (listDir env r'' p)"
      by (simp add: lst)
  qed
  have mkb: "(\<forall>r' me r'' fe s.
            mfsMkdir env r pth = (r', me) \<and> rootFlush env r' = (r'', fe) \<and>
            me \<noteq> Some ''NotImplement'' \<and> fe \<noteq> Some ''NotImplement'' \<and>
            Mkdir env g h pth = Returns s (Some ''NotImplement'') \<longrightarrow>
              me = None \<and> fe = None \<and> s = (g1, h1\<lparr>mroot := Some r''\<rparr>) \<and>
              MfsList env (fst s) (snd s) p = Returns s (listDir env r'' p))"
  proof (intro allI impI)
    fix r' me r'' fe s
    assume a: "mfsMkdir env r pth = (r', me) \<and> rootFlush env r' = (r'', fe) \<and>
            me \<noteq> Some ''NotImplement'' \<and> fe \<noteq> Some ''NotImplement'' \<and>
            Mkdir env g h pth = Returns s (Some ''NotImplement'')"
    then have b: "mfsMkdir env r pth = (r', me)" "rootFlush env r' = (r'', fe)" by simp_all
    from a have c: "me \<noteq> Some ''NotImplement''" "fe \<noteq> Some ''NotImplement''"
      "Mkdir env g h pth = Returns s (Some ''NotImplement'')" by simp_all
    from pick[OF Mkdir_eq[OF assms b] c]
    show "me = None \<and> fe = None \<and> s = (g1, h1\<lparr>mroot := Some r''\<rparr>) \<and>
              MfsList env (fst s) (snd s) p = Returns s (listDir env r'' p)" .
  qed
  have mvf: "(\<forall>r' r''. mfsMv env r src dst = (r', None) \<and> rootFlush env r' = (r'', None) \<longrightarrow>
            Mv env g h src dst = Returns (g1, h1\<lparr>mroot := Some r''\<rparr>) (Some ''NotImplement'') \<and>
            MfsList env g1 (h1\<lparr>mroot := Some r''\<rparr>) p =
              Returns (g1, h1\<lparr>mroot := Some r''\<rparr>) (listDir env r'' p))"
  proof (intro allI impI)
    fix r' r''
    assume a: "mfsMv env r src dst = (r', None) \<and> rootFlush env r' = (r'', None)"
    then have b: "mfsMv env r src dst = (r', None)" "rootFlush env r' = (r'', None)" by simp_all
    from Mv_eq[OF assms b]
    show "Mv env g h src dst = Returns (g1, h1\<lparr>mroot := Some r''\<rparr>) (Some ''NotImplement'') \<and>
            MfsList env g1 (h1\<lparr>mroot := Some r''\<rparr>) p =
              Returns (g1, h1\<lparr>mroot := Some r''\<rparr>) (listDir env r'' p)"
      by (simp add: lst)
  qed
  have mvb: "(\<forall>r' me r'' fe s.
            mfsMv env r src dst = (r', me) \<and> rootFlush env r' = (r'', fe) \<and>
            me \<noteq> Some ''NotImplement'' \<and> fe \<noteq> Some ''NotImplement'' \<and>
            Mv env g h src dst = Returns s (Some ''NotImplement'') \<longrightarrow>
              me = None \<and> fe = None \<and> s = (g1, h1\<lparr>mroot := Some r''\<rparr>) \<and>
              MfsList env (fst s) (snd s) p = Returns s (listDir env r'' p))"
  proof (intro allI impI)
    fix r' me r'' fe s
    assume a: "mfsMv env r src dst = (r', me) \<and> rootFlush env r' = (r'', fe) \<and>
            me \<noteq> Some ''NotImplement'' \<and> fe \<noteq> Some ''NotImplement'' \<and>
            Mv env g h src dst = Returns s (Some ''NotImplement'')"
    then have b: "mfsMv env r src dst = (r', me)" "rootFlush env r' = (r'', fe)" by simp_all
    from a have c: "me \<noteq> Some ''NotImplement''" "fe \<noteq> Some ''NotImplement''"
      "Mv env g h src dst = Returns s (Some ''NotImplement'')" by simp_all
    from pick[OF Mv_eq[OF assms b] c]
    show "me = None \<and> fe = None \<and> s = (g1, h1\<lparr>mroot := Some r''\<rparr>) \<and>
              MfsList env (fst s) (snd s) p = Returns s (listDir env r'' p)" .
  qed
  have ptf: "(\<forall>api g2 n r' r''. nodeApi g1 = Some api \<and> putResolve env g1 nodecid rc = (g2, Inr n) \<and>
            mfsPutNode env r ppth n = (r', None) \<and> rootFlush env r' = (r'', None) \<longrightarrow>
            Put env g h ppth nodecid rc = Returns (g2, h1\<lparr>mroot := Some r''\<rparr>) (Some ''NotImplement'') \<and>
            MfsList env g2 (h1\<lparr>mroot := Some r''\<rparr>) p =
              Returns (g2, h1\<lparr>mroot := Some r''\<rparr>) (listDir env r'' p))"
  proof (intro allI impI)
    fix api g2 n r' r''
    assume a: "nodeApi g1 = Some api \<and> putResolve env g1 nodecid rc = (g2, Inr n) \<and>
            mfsPutNode env r ppth n = (r', None) \<and> rootFlush env r' = (r'', None)"
    then have b: "nodeApi g1 = Some api" "putResolve env g1 nodecid rc = (g2, Inr n)"
      "mfsPutNode env r ppth n = (r', None)" "rootFlush env r' = (r'', None)" by simp_all
    from Put_eq[OF assms b]
    show "Put env g h ppth nodecid rc = Returns (g2, h1\<lparr>mroot := Some r''\<rparr>) (Some ''NotImplement'') \<and>
            MfsList env g2 (h1\<lparr>mroot := Some r''\<rparr>) p =
              Returns (g2, h1\<lparr>mroot := Some r''\<rparr>) (listDir env r'' p)"
      by (simp add: lst)
  qed
  have ptb: "(\<forall>api g2 n r' me r'' fe s.
            nodeApi g1 = Some api \<and> putResolve env g1 nodecid rc = (g2, Inr n) \<and>
            mfsPutNode env r ppth n = (r', me) \<and> rootFlush env r' = (r'', fe) \<and>
            me \<noteq> Some ''NotImplement'' \<and> fe \<noteq> Some ''NotImplement'' \<and>
            Put env g h ppth nodecid rc = Returns s (Some ''NotImplement'') \<longrightarrow>
              me = None \<and> fe = None \<and> s = (g2, h1\<lparr>mroot := Some r''\<rparr>) \<and>
              MfsList env (fst s) (snd s) p = Returns s (listDir env r'' p))"
  proof (intro allI impI)
    fix api g2 n r' me r'' fe s
    assume a: "nodeApi g1 = Some api \<and> putResolve env g1 nodecid rc = (g2, Inr n) \<and>
            mfsPutNode env r ppth n = (r', me) \<and> rootFlush env r' = (r'', fe) \<and>
            me \<noteq> Some ''NotImplement'' \<and> fe \<noteq> Some ''NotImplement'' \<and>
            Put env g h ppth nodecid rc = Returns s (Some ''NotImplement'')"
    then have b: "nodeApi g1 = Some api" "putResolve env g1 nodecid rc = (g2, Inr n)"
      "mfsPutNode env r ppth n = (r', me)" "rootFlush env r' = (r'', fe)" by simp_all
    from a have c: "me \<noteq> Some ''NotImplement''" "fe \<noteq> Some ''NotImplement''"
      "Put env g h ppth nodecid rc = Returns s (Some ''NotImplement'')" by simp_all
    from pick[OF Put_eq[OF assms b] c]
    show "me = None \<and> fe = None \<and> s = (g2, h1\<lparr>mroot := Some r''\<rparr>) \<and>
              MfsList env (fst s) (snd s) p = Returns s (listDir env r'' p)" .
  qed
  have ulf: "(\<forall>d r' r''. mfsLookup env r upth = Inr (Directory d) \<and>
            dirUnlink env r d fname = (r', None) \<and> rootFlush env r' = (r'', None) \<longrightarrow>
            Unlink env g h upth fname = Returns (g1, h1\<lparr>mroot := Some r''\<rparr>) (Some ''NotImplement'') \<and>
            MfsList env g1 (h1\<lparr>mroot := Some r''\<rparr>) p =
              Returns (g1, h1\<lparr>mroot := Some r''\<rparr>) (listDir env r'' p))"
  proof (intro allI impI)
    fix d r' r''
    assume a: "mfsLookup env r upth = Inr (Directory d) \<and>
            dirUnlink env r d fname = (r', None) \<and> rootFlush env r' = (r'', None)"
    then have b: "mfsLookup env r upth = Inr (Directory d)"
      "dirUnlink env r d fname = (r', None)" "rootFlush env r' = (r'', None)" by simp_all
    from Unlink_eq[OF assms b]
    show "Unlink env g h upth fname = Returns (g1, h1\<lparr>mroot := Some r''\<rparr>) (Some ''NotImplement'') \<and>
            MfsList env g1 (h1\<lparr>mroot := Some r''\<rparr>) p =
              Returns (g1, h1\<lparr>mroot := Some r''\<rparr>) (listDir env r'' p)"
      by (simp add: lst)
  qed
  have ulb: "(\<forall>d r' me r'' fe s.
            mfsLookup env r upth = Inr (Directory d) \<and>
            dirUnlink env r d fname = (r', me) \<and> rootFlush env r' = (r'', fe) \<and>
            me \<noteq> Some ''NotImplement'' \<and> fe \<noteq> Some ''NotImplement'' \<and>
            Unlink env g h upth fname = Returns s (Some ''NotImplement'') \<longrightarrow>
              me = None \<and> fe = None \<and> s = (g1, h1\<lparr>mroot := Some r''\<rparr>) \<and>
              MfsList env (fst s) (snd s) p = Returns s (listDir env r'' p))"
  proof (intro allI impI)
    fix d r' me r'' fe s
    assume a: "mfsLookup env r upth = Inr (Directory d) \<and>
            dirUnlink env r d fname = (r', me) \<and> rootFlush env r' = (r'', fe) \<and>
            me \<noteq> Some ''NotImplement'' \<and> fe \<noteq> Some ''NotImplement'' \<and>
            Unlink env g h upth fname = Returns s (Some ''NotImplement'')"
    then have b: "mfsLookup env r upth = Inr (Directory d)"
      "dirUnlink env r d fname = (r', me)" "rootFlush env r' = (r'', fe)" by simp_all
    from a have c: "me \<noteq> Some ''NotImplement''" "fe \<noteq> Some ''NotImplement''"
      "Unlink env g h upth fname = Returns s (Some ''NotImplement'')" by simp_all
    from pick[OF Unlink_eq[OF assms b] c]
    show "me = None \<and> fe = None \<and> s = (g1, h1\<lparr>mroot := Some r''\<rparr>) \<and>
              MfsList env (fst s) (snd s) p = Returns s (listDir env r'' p)" .
  qed
  from mkf mkb mvf mvb ptf ptb ulf ulb show ?thesis by (intro conjI)
qed

lemma exList_before:
  "MfsList exEnv exRunning exRooted ''/'' =
     Returns (exRunning, exRooted) (Inr [\<lparr>Id = ''QmKnown'', Name = ''QmKnown'', Size = 0, Isdir = False\<rparr>])"
  by (simp add: MfsList_def withRoot_def newRoot_def exEnv_def exRooted_def listDir_def toNodeObj_def)

theorem NotImplement_with_applied_mutation_witness:
  "MfsList exEnv exRunning exRooted ''/'' = Returns (exRunning, exRooted) (Inr [\<lparr>Id = ''QmKnown'', Name = ''QmKnown'', Size = 0, Isdir = False\<rparr>]) \<and>
   Mkdir exEnv exRunning exRooted ''docs'' =
     Returns (exRunning, exRooted\<lparr>mroot := Some [\<lparr>nlName = ''QmKnown'', nlType = 0, nlSize = 0, nlHash = ''QmKnown''\<rparr>, \<lparr>nlName = ''docs'', nlType = 1, nlSize = 0, nlHash = ''QmDir''\<rparr>]\<rparr>) (Some ''NotImplement'') \<and>
   MfsList exEnv (exRunning) (exRooted\<lparr>mroot := Some [\<lparr>nlName = ''QmKnown'', nlType = 0, nlSize = 0, nlHash = ''QmKnown''\<rparr>, \<lparr>nlName = ''docs'', nlType = 1, nlSize = 0, nlHash = ''QmDir''\<rparr>]\<rparr>) ''/'' =
     Returns (exRunning, exRooted\<lparr>mroot := Some [\<lparr>nlName = ''QmKnown'', nlType = 0, nlSize = 0, nlHash = ''QmKnown''\<rparr>, \<lparr>nlName = ''docs'', nlType = 1, nlSize = 0, nlHash = ''QmDir''\<rparr>]\<rparr>) (Inr [\<lparr>Id = ''QmKnown'', Name = ''QmKnown'', Size = 0, Isdir = False\<rparr>, \<lparr>Id = ''QmDir'', Name = ''docs'', Size = 0, Isdir = True\<rparr>]) \<and>
   Mv exEnv exRunning exRooted ''QmKnown'' ''renamed'' =
     Returns (exRunning, exRooted\<lparr>mroot := Some [\<lparr>nlName = ''renamed'', nlType = 0, nlSize = 0, nlHash = ''QmKnown''\<rparr>]\<rparr>) (Some ''NotImplement'') \<and>
   MfsList exEnv (exRunning) (exRooted\<lparr>mroot := Some [\<lparr>nlName = ''renamed'', nlType = 0, nlSize = 0, nlHash = ''QmKnown''\<rparr>]\<rparr>) ''/'' =
     Returns (exRunning, exRooted\<lparr>mroot := Some [\<lparr>nlName = ''renamed'', nlType = 0, nlSize = 0, nlHash = ''QmKnown''\<rparr>]\<rparr>) (Inr [\<lparr>Id = ''QmKnown'', Name = ''renamed'', Size = 0, Isdir = False\<rparr>]) \<and>
   Put exEnv exRunning exRooted ''file'' ''QmKnown'' ''bytes'' =
     Returns (logEv [EvResolve ''QmKnown''] exRunning, exRooted\<lparr>mroot := Some [\<lparr>nlName = ''QmKnown'', nlType = 0, nlSize = 0, nlHash = ''QmKnown''\<rparr>, \<lparr>nlName = ''file'', nlType = 0, nlSize = 0, nlHash = ''QmKnown''\<rparr>]\<rparr>) (Some ''NotImplement'') \<and>
   MfsList exEnv (logEv [EvResolve ''QmKnown''] exRunning) (exRooted\<lparr>mroot := Some [\<lparr>nlName = ''QmKnown'', nlType = 0, nlSize = 0, nlHash = ''QmKnown''\<rparr>, \<lparr>nlName = ''file'', nlType = 0, nlSize = 0, nlHash = ''QmKnown''\<rparr>]\<rparr>) ''/'' =
     Returns (logEv [EvResolve ''QmKnown''] exRunning, exRooted\<lparr>mroot := Some [\<lparr>nlName = ''QmKnown'', nlType = 0, nlSize = 0, nlHash = ''QmKnown''\<rparr>, \<lparr>nlName = ''file'', nlType = 0, nlSize = 0, nlHash = ''QmKnown''\<rparr>]\<rparr>) (Inr [\<lparr>Id = ''QmKnown'', Name = ''QmKnown'', Size = 0, Isdir = False\<rparr>, \<lparr>Id = ''QmKnown'', Name = ''file'', Size = 0, Isdir = False\<rparr>]) \<and>
   Unlink exEnv exRunning exRooted ''/'' ''QmKnown'' =
     Returns (exRunning, exRooted\<lparr>mroot := Some []\<rparr>) (Some ''NotImplement'') \<and>
   MfsList exEnv (exRunning) (exRooted\<lparr>mroot := Some []\<rparr>) ''/'' =
     Returns (exRunning, exRooted\<lparr>mroot := Some []\<rparr>) (Inr [])"
proof -
  let ?r = "[\<lparr>nlName = ''QmKnown'', nlType = 0, nlSize = 0, nlHash = ''QmKnown''\<rparr>]"
  have 1: "newRoot exEnv False exRunning exRooted = Returns (exRunning, exRooted) None"
    by (rule exRooted_newRoot)
  have 2: "\<not> lock exRooted" and 3: "mroot exRooted = Some ?r" by (simp_all add: exRooted_def)
  note t = NotImplement_with_applied_mutation[OF 1 2 3, of "''docs''" "''/''" "''QmKnown''" "''renamed''" "''QmKnown''" "''bytes''" "''file''" "''/''" "''QmKnown''"]
  have fl: "\<And>x. rootFlush exEnv x = (x, None)" by (simp add: exEnv_def)
  have ld: "\<And>x. listDir exEnv x ''/'' = Inr (map (toNodeObj exEnv) x)"
    by (simp add: listDir_def exEnv_def)
  have tn: "\<And>n. toNodeObj exEnv n = \<lparr>Id = nlHash n, Name = nlName n, Size = nlSize n, Isdir = (nlType n = 1)\<rparr>"
    by (simp add: toNodeObj_def exEnv_def)
  have mk: "mfsMkdir exEnv ?r ''docs'' = ([\<lparr>nlName = ''QmKnown'', nlType = 0, nlSize = 0, nlHash = ''QmKnown''\<rparr>, \<lparr>nlName = ''docs'', nlType = 1, nlSize = 0, nlHash = ''QmDir''\<rparr>], None)"
    by (simp add: exEnv_def)
  have mv: "mfsMv exEnv ?r ''QmKnown'' ''renamed'' = ([\<lparr>nlName = ''renamed'', nlType = 0, nlSize = 0, nlHash = ''QmKnown''\<rparr>], None)"
    by (simp add: exEnv_def)
  have pr: "nodeApi exRunning = Some (CoreAPI ''ipfs_QmPeer'')"
    "putResolve exEnv exRunning ''QmKnown'' ''bytes'' = (logEv [EvResolve ''QmKnown''] exRunning, Inr (ProtoNode ''QmKnown''))"
    by (simp_all add: exRunning_def putResolve_def exEnv_def)
  have pt: "mfsPutNode exEnv ?r ''file'' (ProtoNode ''QmKnown'') = ([\<lparr>nlName = ''QmKnown'', nlType = 0, nlSize = 0, nlHash = ''QmKnown''\<rparr>, \<lparr>nlName = ''file'', nlType = 0, nlSize = 0, nlHash = ''QmKnown''\<rparr>], None)"
    by (simp add: exEnv_def)
  have lk: "mfsLookup exEnv ?r ''/'' = Inr (Directory ())"
    and ul: "dirUnlink exEnv ?r () ''QmKnown'' = ([], None)"
    by (simp_all add: exEnv_def)
  note a = t[THEN conjunct1, rule_format, OF conjI[OF mk fl]]
  note b = t[THEN conjunct2, THEN conjunct2, THEN conjunct1, rule_format, OF conjI[OF mv fl]]
  note c = t[THEN conjunct2, THEN conjunct2, THEN conjunct2, THEN conjunct2, THEN conjunct1, rule_format, OF conjI[OF pr(1) conjI[OF pr(2) conjI[OF pt fl]]]]
  note d = t[THEN conjunct2, THEN conjunct2, THEN conjunct2, THEN conjunct2, THEN conjunct2, THEN conjunct2, THEN conjunct1, rule_format, OF conjI[OF lk conjI[OF ul fl]]]
  from a b c d exList_before show ?thesis by (simp add: ld tn)
qed

subsection \<open>Which errors reach the caller\<close>

text \<open>
  Claim C7, as stated, fails: with the pin service unreachable, \<open>GetStatusByID\<close> returns
  an error, and \<open>List\<close> on a fresh handle whose \<open>CID\<close> resolves returns the listing
  of the root built from that identifier, and no error.
\<close>

theorem pin_error_is_not_returned:
  "GetStatusByID exEnvPinDown (''u'', ''t'') [] = Inl ''pin service unreachable'' \<and>
   MfsList exEnvPinDown exRunning exHandle ''/'' =
     Returns (logEv [EvGetStatus [], EvResolve ''QmKnown''] exRunning,
              exHandle\<lparr>mroot := Some [\<lparr>nlName = ''QmKnown'', nlType = 0, nlSize = 0, nlHash = ''QmKnown''\<rparr>],
                       CID := Some ''QmRoot''\<rparr>)
             (Inr [\<lparr>Id = ''QmKnown'', Name = ''QmKnown'', Size = 0, Isdir = False\<rparr>])"
  by (simp add: MfsList_def withRoot_def newRoot_def exEnvPinDown_def exEnv_def exHandle_def pinStep_def
      rebuild_def exRunning_def logEv_def Let_def listDir_def toNodeObj_def)

text \<open>
  Claim C7, amended.  Errors are returned to the immediate caller, as they are, as follows.
  A constructing \<open>NewMfs\<close> returns the error of the step that failed.  \<open>newRoot\<close>
  returns the error of \<open>ResolveNode\<close>, of the node-type check, of \<open>mfs.NewRoot\<close> and
  of \<open>GetNode\<close>.  Every tree operation returns the error of \<open>newRoot\<close>; once
  \<open>newRoot\<close> has passed, \<open>List\<close> returns the error of the lookup, of the type check
  and of the listing, and \<open>Mkdir\<close>, \<open>Mv\<close>, \<open>Put\<close> and \<open>Unlink\<close> (on a path that
  is a directory) return the error of go-mfs's mutation and the error of the flush,
  \<open>Put\<close> also the error of adding the stream and of resolving what was added.

  Not returned are: the error of the pin-status query (when \<open>GetStatusByID\<close> fails,
  \<open>newRoot\<close> is the rebuild from the content identifier the handle already had); the
  error of the delegate-address parser and the peer connections, which are started and
  never awaited (with a status in hand, \<open>newRoot\<close> is the rebuild that follows them);
  the flush of the root that a rebuild replaces (the rebuild returns nil after it); the
  error of \<open>Put\<close>'s first \<open>ResolveNode\<close> when the stream is added instead; and
  whatever \<open>Close\<close> meets, since it returns nil whenever it returns.
\<close>

theorem errors_returned_except_pin_status:
  "(\<forall>pc e. (force \<or> mroot h = None) \<and> \<not> lock h \<and> pinclient h = Some pc \<and>
       GetStatusByID env pc (case PinID h of None \<Rightarrow> [] | Some s \<Rightarrow> s) = Inl e \<longrightarrow>
       newRoot env force g h =
         rebuild env (logEv [EvGetStatus (case PinID h of None \<Rightarrow> [] | Some s \<Rightarrow> s)] g) h
           (case CID h of None \<Rightarrow> [] | Some s \<Rightarrow> s)) \<and>
   (\<forall>pc ps api. (force \<or> mroot h = None) \<and> \<not> lock h \<and> pinclient h = Some pc \<and>
       nodeApi g = Some api \<and>
       GetStatusByID env pc (case PinID h of None \<Rightarrow> [] | Some s \<Rightarrow> s) = Inr ps \<longrightarrow>
       newRoot env force g h =
         rebuild env
           (logEv (EvGetStatus (case PinID h of None \<Rightarrow> [] | Some s \<Rightarrow> s) #
                   (case AddrInfosFromP2pAddrs env (delegates ps) of
                      Inl e \<Rightarrow> [] | Inr info \<Rightarrow> map EvConnect info)) g) h
           (if status ps = StatusPinned then pinCid ps else (case CID h of None \<Rightarrow> [] | Some s \<Rightarrow> s))) \<and>
   (\<forall>g1 c api. nodeApi g1 = Some api \<longrightarrow>
      (\<forall>e. ResolveNode env c = Inl e \<longrightarrow>
           rebuild env g1 h c = Returns (logEv [EvResolve c] g1, h) (Some e)) \<and>
      (\<forall>t c'. ResolveNode env c = Inr (OtherNode t c') \<longrightarrow>
           rebuild env g1 h c = Returns (logEv [EvResolve c] g1, h) (Some t)) \<and>
      (\<forall>c' e. ResolveNode env c = Inr (ProtoNode c') \<and> mfsNewRoot env c' = Inl e \<longrightarrow>
           rebuild env g1 h c = Returns (logEv [EvResolve c] g1, h) (Some e)) \<and>
      (\<forall>c' r e. ResolveNode env c = Inr (ProtoNode c') \<and> mfsNewRoot env c' = Inr r \<and> rootGetNode env r = Inl e \<longrightarrow>
           rebuild env g1 h c = Returns (logEv [EvResolve c] g1, h) (Some e)) \<and>
      (\<forall>c' r ld. ResolveNode env c = Inr (ProtoNode c') \<and> mfsNewRoot env c' = Inr r \<and> rootGetNode env r = Inr ld \<longrightarrow>
           rebuild env g1 h c =
             Returns (case mroot h of None \<Rightarrow> logEv [EvResolve c] g1
                      | Some old \<Rightarrow> logEv [EvFlushMemFree] (logEv [EvResolve c] g1),
                      h\<lparr>mroot := Some r, CID := (case CID h of None \<Rightarrow> None | Some c0 \<Rightarrow> Some (nodeCid ld))\<rparr>) None)) \<and>
   (\<forall>s e. newRoot env False g h = Returns s (Some e) \<longrightarrow>
      MfsList env g h pth = Returns s (Inl e) \<and>
      Mkdir env g h pth = Returns s (Some e) \<and>
      Mv env g h src dst = Returns s (Some e) \<and>
      Put env g h pth nodecid rc = Returns s (Some e) \<and>
      Unlink env g h pth fname = Returns s (Some e)) \<and>
   (\<forall>g1 h1 r. newRoot env False g h = Returns (g1, h1) None \<and> \<not> lock h1 \<and> mroot h1 = Some r \<longrightarrow>
      MfsList env g h pth = Returns (g1, h1) (listDir env r pth) \<and>
      (\<forall>e. mfsLookup env r pth = Inl e \<longrightarrow> listDir env r pth = Inl e) \<and>
      (mfsLookup env r pth = Inr File \<longrightarrow> listDir env r pth = Inl ''*mfs.File'') \<and>
      (\<forall>d e. mfsLookup env r pth = Inr (Directory d) \<and> dirList env r d = Inl e \<longrightarrow>
         listDir env r pth = Inl e) \<and>
      (\<forall>r' e. mfsMkdir env r pth = (r', Some e) \<longrightarrow>
         Mkdir env g h pth = Returns (g1, h1\<lparr>mroot := Some r'\<rparr>) (Some e)) \<and>
      (\<forall>r' r'' e. mfsMkdir env r pth = (r', None) \<and> rootFlush env r' = (r'', Some e) \<longrightarrow>
         Mkdir env g h pth = Returns (g1, h1\<lparr>mroot := Some r''\<rparr>) (Some e)) \<and>
      (\<forall>r' e. mfsMv env r src dst = (r', Some e) \<longrightarrow>
         Mv env g h src dst = Returns (g1, h1\<lparr>mroot := Some r'\<rparr>) (Some e)) \<and>
      (\<forall>r' r'' e. mfsMv env r src dst = (r', None) \<and> rootFlush env r' = (r'', Some e) \<longrightarrow>
         Mv env g h src dst = Returns (g1, h1\<lparr>mroot := Some r''\<rparr>) (Some e)) \<and>
      (\<forall>d r' e. mfsLookup env r pth = Inr (Directory d) \<and> dirUnlink env r d fname = (r', Some e) \<longrightarrow>
         Unlink env g h pth fname = Returns (g1, h1\<lparr>mroot := Some r'\<rparr>) (Some e)) \<and>
      (\<forall>d r' r'' e. mfsLookup env r pth = Inr (Directory d) \<and> dirUnlink env r d fname = (r', None) \<and> rootFlush env r' = (r'', Some e) \<longrightarrow>
         Unlink env g h pth fname = Returns (g1, h1\<lparr>mroot := Some r''\<rparr>) (Some e)) \<and>
      (\<forall>api g2 e. nodeApi g1 = Some api \<and> putResolve env g1 nodecid rc = (g2, Inl e) \<longrightarrow>
         Put env g h pth nodecid rc = Returns (g2, h1) (Some e)) \<and>
      (\<forall>api g2 n r' e. nodeApi g1 = Some api \<and> putResolve env g1 nodecid rc = (g2, Inr n) \<and>
           mfsPutNode env r pth n = (r', Some e) \<longrightarrow>
         Put env g h pth nodecid rc = Returns (g2, h1\<lparr>mroot := Some r'\<rparr>) (Some e)) \<and>
      (\<forall>api g2 n r' r'' e. nodeApi g1 = Some api \<and> putResolve env g1 nodecid rc = (g2, Inr n) \<and>
           mfsPutNode env r pth n = (r', None) \<and> rootFlush env r' = (r'', Some e) \<longrightarrow>
         Put env g h pth nodecid rc = Returns (g2, h1\<lparr>mroot := Some r''\<rparr>) (Some e))) \<and>
   ((\<forall>n. ResolveNode env nodecid = Inr n \<longrightarrow> snd (putResolve env g nodecid rc) = Inr n) \<and>
    (\<forall>e0 e. ResolveNode env nodecid = Inl e0 \<and> UnixfsAdd env rc = Inl e \<longrightarrow>
       snd (putResolve env g nodecid rc) = Inl e) \<and>
    (\<forall>e0 rspath. ResolveNode env nodecid = Inl e0 \<and> UnixfsAdd env rc = Inr rspath \<longrightarrow>
       snd (putResolve env g nodecid rc) = ResolveNode env rspath)) \<and>
   (buildCount g < 0 \<longrightarrow>
      (\<forall>e. \<not> plugins g \<and> NewPluginLoader be = Some e \<longrightarrow> snd (NewMfs be purl ptoken g :: global \<times> (error + 'r MfsAPI)) = Inl e) \<and>
      (\<forall>e. \<not> plugins g \<and> NewPluginLoader be = None \<and> Initialize be = Some e \<longrightarrow> snd (NewMfs be purl ptoken g :: global \<times> (error + 'r MfsAPI)) = Inl e) \<and>
      (\<forall>e. \<not> plugins g \<and> NewPluginLoader be = None \<and> Initialize be = None \<and> Inject be = Some e \<longrightarrow>
           snd (NewMfs be purl ptoken g :: global \<times> (error + 'r MfsAPI)) = Inl e) \<and>
      (plugins g \<or> NewPluginLoader be = None \<and> Initialize be = None \<and> Inject be = None \<longrightarrow>
         (\<forall>e. configInit be = Inl e \<longrightarrow> snd (NewMfs be purl ptoken g :: global \<times> (error + 'r MfsAPI)) = Inl e) \<and>
         (\<forall>peerID e. configInit be = Inr peerID \<longrightarrow>
            (fsrepoInit be (pathJoin be (DefaultPath g) (''ipfs_'' @ peerID)) = Some e \<longrightarrow> snd (NewMfs be purl ptoken g :: global \<times> (error + 'r MfsAPI)) = Inl e) \<and>
            (fsrepoInit be (pathJoin be (DefaultPath g) (''ipfs_'' @ peerID)) = None \<and> fsrepoOpen be (pathJoin be (DefaultPath g) (''ipfs_'' @ peerID)) = Some e \<longrightarrow> snd (NewMfs be purl ptoken g :: global \<times> (error + 'r MfsAPI)) = Inl e) \<and>
            (fsrepoInit be (pathJoin be (DefaultPath g) (''ipfs_'' @ peerID)) = None \<and> fsrepoOpen be (pathJoin be (DefaultPath g) (''ipfs_'' @ peerID)) = None \<and>
             coreNewNode be (pathJoin be (DefaultPath g) (''ipfs_'' @ peerID)) = Some e \<longrightarrow> snd (NewMfs be purl ptoken g :: global \<times> (error + 'r MfsAPI)) = Inl e) \<and>
            (fsrepoInit be (pathJoin be (DefaultPath g) (''ipfs_'' @ peerID)) = None \<and> fsrepoOpen be (pathJoin be (DefaultPath g) (''ipfs_'' @ peerID)) = None \<and>
             coreNewNode be (pathJoin be (DefaultPath g) (''ipfs_'' @ peerID)) = None \<and> NewCoreAPI be (pathJoin be (DefaultPath g) (''ipfs_'' @ peerID)) = Some e \<longrightarrow> snd (NewMfs be purl ptoken g :: global \<times> (error + 'r MfsAPI)) = Inl e)))) \<and>
   (\<forall>s e. Close g h = Returns s e \<longrightarrow> e = None)"
proof -
  have A1: "(\<forall>pc e. (force \<or> mroot h = None) \<and> \<not> lock h \<and> pinclient h = Some pc \<and>
       GetStatusByID env pc (case PinID h of None \<Rightarrow> [] | Some s \<Rightarrow> s) = Inl e \<longrightarrow>
       newRoot env force g h =
         rebuild env (logEv [EvGetStatus (case PinID h of None \<Rightarrow> [] | Some s \<Rightarrow> s)] g) h
           (case CID h of None \<Rightarrow> [] | Some s \<Rightarrow> s))"
  proof (intro allI impI)
    fix pc e
    assume a: "(force \<or> mroot h = None) \<and> \<not> lock h \<and> pinclient h = Some pc \<and>
       GetStatusByID env pc (case PinID h of None \<Rightarrow> [] | Some s \<Rightarrow> s) = Inl e"
    then have "force \<or> mroot h = None" "\<not> lock h" "pinclient h = Some pc" by simp_all
    from newRoot_uncached[OF this, of env g] a
    show "newRoot env force g h = rebuild env (logEv [EvGetStatus (case PinID h of None \<Rightarrow> [] | Some s \<Rightarrow> s)] g) h (case CID h of None \<Rightarrow> [] | Some s \<Rightarrow> s)"
      by (simp add: pinStep_def)
  qed
  have A2: "(\<forall>pc ps api. (force \<or> mroot h = None) \<and> \<not> lock h \<and> pinclient h = Some pc \<and>
       nodeApi g = Some api \<and>
       GetStatusByID env pc (case PinID h of None \<Rightarrow> [] | Some s \<Rightarrow> s) = Inr ps \<longrightarrow>
       newRoot env force g h =
         rebuild env
           (logEv (EvGetStatus (case PinID h of None \<Rightarrow> [] | Some s \<Rightarrow> s) #
                   (case AddrInfosFromP2pAddrs env (delegates ps) of
                      Inl e \<Rightarrow> [] | Inr info \<Rightarrow> map EvConnect info)) g) h
           (if status ps = StatusPinned then pinCid ps else (case CID h of None \<Rightarrow> [] | Some s \<Rightarrow> s)))"
  proof (intro allI impI)
    fix pc ps api
    assume a: "(force \<or> mroot h = None) \<and> \<not> lock h \<and> pinclient h = Some pc \<and>
       nodeApi g = Some api \<and> GetStatusByID env pc (case PinID h of None \<Rightarrow> [] | Some s \<Rightarrow> s) = Inr ps"
    then have "force \<or> mroot h = None" "\<not> lock h" "pinclient h = Some pc" by simp_all
    from newRoot_uncached[OF this, of env g] a
    show "newRoot env force g h =
         rebuild env
           (logEv (EvGetStatus (case PinID h of None \<Rightarrow> [] | Some s \<Rightarrow> s) #
                   (case AddrInfosFromP2pAddrs env (delegates ps) of
                      Inl e \<Rightarrow> [] | Inr info \<Rightarrow> map EvConnect info)) g) h
           (if status ps = StatusPinned then pinCid ps else (case CID h of None \<Rightarrow> [] | Some s \<Rightarrow> s))"
      by (simp add: pinStep_def Let_def logEv_def split: sum.splits)
  qed
  have B: "(\<forall>g1 c api. nodeApi g1 = Some api \<longrightarrow>
      (\<forall>e. ResolveNode env c = Inl e \<longrightarrow>
           rebuild env g1 h c = Returns (logEv [EvResolve c] g1, h) (Some e)) \<and>
      (\<forall>t c'. ResolveNode env c = Inr (OtherNode t c') \<longrightarrow>
           rebuild env g1 h c = Returns (logEv [EvResolve c] g1, h) (Some t)) \<and>
      (\<forall>c' e. ResolveNode env c = Inr (ProtoNode c') \<and> mfsNewRoot env c' = Inl e \<longrightarrow>
           rebuild env g1 h c = Returns (logEv [EvResolve c] g1, h) (Some e)) \<and>
      (\<forall>c' r e. ResolveNode env c = Inr (ProtoNode c') \<and> mfsNewRoot env c' = Inr r \<and> rootGetNode env r = Inl e \<longrightarrow>
           rebuild env g1 h c = Returns (logEv [EvResolve c] g1, h) (Some e)) \<and>
      (\<forall>c' r ld. ResolveNode env c = Inr (ProtoNode c') \<and> mfsNewRoot env c' = Inr r \<and> rootGetNode env r = Inr ld \<longrightarrow>
           rebuild env g1 h c =
             Returns (case mroot h of None \<Rightarrow> logEv [EvResolve c] g1
                      | Some old \<Rightarrow> logEv [EvFlushMemFree] (logEv [EvResolve c] g1),
                      h\<lparr>mroot := Some r, CID := (case CID h of None \<Rightarrow> None | Some c0 \<Rightarrow> Some (nodeCid ld))\<rparr>) None))"
    by (simp add: rebuild_steps)
  have C: "(\<forall>s e. newRoot env False g h = Returns s (Some e) \<longrightarrow>
      MfsList env g h pth = Returns s (Inl e) \<and>
      Mkdir env g h pth = Returns s (Some e) \<and>
      Mv env g h src dst = Returns s (Some e) \<and>
      Put env g h pth nodecid rc = Returns s (Some e) \<and>
      Unlink env g h pth fname = Returns s (Some e))"
    by (simp add: MfsList_def Mkdir_def Mv_def Put_def Unlink_def withRoot_error)
  have D: "(\<forall>g1 h1 r. newRoot env False g h = Returns (g1, h1) None \<and> \<not> lock h1 \<and> mroot h1 = Some r \<longrightarrow>
      MfsList env g h pth = Returns (g1, h1) (listDir env r pth) \<and>
      (\<forall>e. mfsLookup env r pth = Inl e \<longrightarrow> listDir env r pth = Inl e) \<and>
      (mfsLookup env r pth = Inr File \<longrightarrow> listDir env r pth = Inl ''*mfs.File'') \<and>
      (\<forall>d e. mfsLookup env r pth = Inr (Directory d) \<and> dirList env r d = Inl e \<longrightarrow>
         listDir env r pth = Inl e) \<and>
      (\<forall>r' e. mfsMkdir env r pth = (r', Some e) \<longrightarrow>
         Mkdir env g h pth = Returns (g1, h1\<lparr>mroot := Some r'\<rparr>) (Some e)) \<and>
      (\<forall>r' r'' e. mfsMkdir env r pth = (r', None) \<and> rootFlush env r' = (r'', Some e) \<longrightarrow>
         Mkdir env g h pth = Returns (g1, h1\<lparr>mroot := Some r''\<rparr>) (Some e)) \<and>
      (\<forall>r' e. mfsMv env r src dst = (r', Some e) \<longrightarrow>
         Mv env g h src dst = Returns (g1, h1\<lparr>mroot := Some r'\<rparr>) (Some e)) \<and>
      (\<forall>r' r'' e. mfsMv env r src dst = (r', None) \<and> rootFlush env r' = (r'', Some e) \<longrightarrow>
         Mv env g h src dst = Returns (g1, h1\<lparr>mroot := Some r''\<rparr>) (Some e)) \<and>
      (\<forall>d r' e. mfsLookup env r pth = Inr (Directory d) \<and> dirUnlink env r d fname = (r', Some e) \<longrightarrow>
         Unlink env g h pth fname = Returns (g1, h1\<lparr>mroot := Some r'\<rparr>) (Some e)) \<and>
      (\<forall>d r' r'' e. mfsLookup env r pth = Inr (Directory d) \<and> dirUnlink env r d fname = (r', None) \<and> rootFlush env r' = (r'', Some e) \<longrightarrow>
         Unlink env g h pth fname = Returns (g1, h1\<lparr>mroot := Some r''\<rparr>) (Some e)) \<and>
      (\<forall>api g2 e. nodeApi g1 = Some api \<and> putResolve env g1 nodecid rc = (g2, Inl e) \<longrightarrow>
         Put env g h pth nodecid rc = Returns (g2, h1) (Some e)) \<and>
      (\<forall>api g2 n r' e. nodeApi g1 = Some api \<and> putResolve env g1 nodecid rc = (g2, Inr n) \<and>
           mfsPutNode env r pth n = (r', Some e) \<longrightarrow>
         Put env g h pth nodecid rc = Returns (g2, h1\<lparr>mroot := Some r'\<rparr>) (Some e)) \<and>
      (\<forall>api g2 n r' r'' e. nodeApi g1 = Some api \<and> putResolve env g1 nodecid rc = (g2, Inr n) \<and>
           mfsPutNode env r pth n = (r', None) \<and> rootFlush env r' = (r'', Some e) \<longrightarrow>
         Put env g h pth nodecid rc = Returns (g2, h1\<lparr>mroot := Some r''\<rparr>) (Some e)))"
    by (intro allI impI, elim conjE)
       (simp add: MfsList_def Mkdir_def Mv_def Put_def Unlink_def withRoot_ok listDir_def
          thenWaitpin_def waitpin_def)
  have Dp: "((\<forall>n. ResolveNode env nodecid = Inr n \<longrightarrow> snd (putResolve env g nodecid rc) = Inr n) \<and>
    (\<forall>e0 e. ResolveNode env nodecid = Inl e0 \<and> UnixfsAdd env rc = Inl e \<longrightarrow>
       snd (putResolve env g nodecid rc) = Inl e) \<and>
    (\<forall>e0 rspath. ResolveNode env nodecid = Inl e0 \<and> UnixfsAdd env rc = Inr rspath \<longrightarrow>
       snd (putResolve env g nodecid rc) = ResolveNode env rspath))"
    by (simp add: putResolve_def)
  have E: "(buildCount g < 0 \<longrightarrow>
      (\<forall>e. \<not> plugins g \<and> NewPluginLoader be = Some e \<longrightarrow> snd (NewMfs be purl ptoken g :: global \<times> (error + 'r MfsAPI)) = Inl e) \<and>
      (\<forall>e. \<not> plugins g \<and> NewPluginLoader be = None \<and> Initialize be = Some e \<longrightarrow> snd (NewMfs be purl ptoken g :: global \<times> (error + 'r MfsAPI)) = Inl e) \<and>
      (\<forall>e. \<not> plugins g \<and> NewPluginLoader be = None \<and> Initialize be = None \<and> Inject be = Some e \<longrightarrow>
           snd (NewMfs be purl ptoken g :: global \<times> (error + 'r MfsAPI)) = Inl e) \<and>
      (plugins g \<or> NewPluginLoader be = None \<and> Initialize be = None \<and> Inject be = None \<longrightarrow>
         (\<forall>e. configInit be = Inl e \<longrightarrow> snd (NewMfs be purl ptoken g :: global \<times> (error + 'r MfsAPI)) = Inl e) \<and>
         (\<forall>peerID e. configInit be = Inr peerID \<longrightarrow>
            (fsrepoInit be (pathJoin be (DefaultPath g) (''ipfs_'' @ peerID)) = Some e \<longrightarrow> snd (NewMfs be purl ptoken g :: global \<times> (error + 'r MfsAPI)) = Inl e) \<and>
            (fsrepoInit be (pathJoin be (DefaultPath g) (''ipfs_'' @ peerID)) = None \<and> fsrepoOpen be (pathJoin be (DefaultPath g) (''ipfs_'' @ peerID)) = Some e \<longrightarrow> snd (NewMfs be purl ptoken g :: global \<times> (error + 'r MfsAPI)) = Inl e) \<and>
            (fsrepoInit be (pathJoin be (DefaultPath g) (''ipfs_'' @ peerID)) = None \<and> fsrepoOpen be (pathJoin be (DefaultPath g) (''ipfs_'' @ peerID)) = None \<and>
             coreNewNode be (pathJoin be (DefaultPath g) (''ipfs_'' @ peerID)) = Some e \<longrightarrow> snd (NewMfs be purl ptoken g :: global \<times> (error + 'r MfsAPI)) = Inl e) \<and>
            (fsrepoInit be (pathJoin be (DefaultPath g) (''ipfs_'' @ peerID)) = None \<and> fsrepoOpen be (pathJoin be (DefaultPath g) (''ipfs_'' @ peerID)) = None \<and>
             coreNewNode be (pathJoin be (DefaultPath g) (''ipfs_'' @ peerID)) = None \<and> NewCoreAPI be (pathJoin be (DefaultPath g) (''ipfs_'' @ peerID)) = Some e \<longrightarrow> snd (NewMfs be purl ptoken g :: global \<times> (error + 'r MfsAPI)) = Inl e))))"
    by (auto simp: NewMfs_def loadPlugins_def Let_def logEv_def)
  have F: "(\<forall>s e. Close g h = Returns s e \<longrightarrow> e = None)"
    by (auto simp: Close_def Let_def split: if_splits option.splits)
  from A1 A2 B C D Dp E F show ?thesis by (intro conjI) (elim conjE, assumption)+
qed

lemma exNoResolve_list:
  "MfsList exEnvNoResolve exRunning exHandle ''/'' =
     Returns (logEv [EvGetStatus [], EvResolve ''QmPinned''] exRunning, exHandle) (Inl ''context deadline exceeded'')"
  by (simp add: MfsList_def withRoot_def newRoot_def exEnvNoResolve_def exEnv_def exHandle_def pinStep_def
      rebuild_def exRunning_def logEv_def Let_def StatusPinned_def)

theorem errors_returned_except_pin_status_witness:
  "GetStatusByID exEnvPinDown (''u'', ''t'') [] = Inl ''pin service unreachable'' \<and>
   newRoot exEnvPinDown False exRunning exHandle =
     rebuild exEnvPinDown (logEv [EvGetStatus []] exRunning) exHandle ''QmKnown'' \<and>
   ResolveNode exEnvNoResolve ''QmPinned'' = Inl ''context deadline exceeded'' \<and>
   rebuild exEnvNoResolve exRunning exHandle ''QmPinned'' =
     Returns (logEv [EvResolve ''QmPinned''] exRunning, exHandle) (Some ''context deadline exceeded'') \<and>
   MfsList exEnvNoResolve exRunning exHandle ''/'' =
     Returns (logEv [EvGetStatus [], EvResolve ''QmPinned''] exRunning, exHandle) (Inl ''context deadline exceeded'') \<and>
   dirUnlink exEnv [\<lparr>nlName = ''QmKnown'', nlType = 0, nlSize = 0, nlHash = ''QmKnown''\<rparr>] () ''nope'' =
     ([\<lparr>nlName = ''QmKnown'', nlType = 0, nlSize = 0, nlHash = ''QmKnown''\<rparr>], Some ''file does not exist'') \<and>
   Unlink exEnv exRunning exRooted ''/'' ''nope'' =
     Returns (exRunning,
              exRooted\<lparr>mroot := Some [\<lparr>nlName = ''QmKnown'', nlType = 0, nlSize = 0, nlHash = ''QmKnown''\<rparr>]\<rparr>)
             (Some ''file does not exist'')"
proof -
  let ?r = "[\<lparr>nlName = ''QmKnown'', nlType = 0, nlSize = 0, nlHash = ''QmKnown''\<rparr>]"
  have 1: "nodeApi exRunning = Some (CoreAPI ''ipfs_QmPeer'')" by (simp add: exRunning_def)
  have 2: "ResolveNode exEnvNoResolve ''QmPinned'' = Inl ''context deadline exceeded''"
    by (simp add: exEnvNoResolve_def)
  have 3: "GetStatusByID exEnvPinDown (''u'', ''t'') [] = Inl ''pin service unreachable''"
    by (simp add: exEnvPinDown_def)
  have h: "mroot exHandle = None" "\<not> lock exHandle" "pinclient exHandle = Some (''u'', ''t'')"
    "PinID exHandle = None" "CID exHandle = Some ''QmKnown''"
    by (simp_all add: exHandle_def)
  have r: "newRoot exEnv False exRunning exRooted = Returns (exRunning, exRooted) None"
    "\<not> lock exRooted" "mroot exRooted = Some ?r"
    by (simp_all add: exRooted_newRoot) (simp_all add: exRooted_def)
  have u: "mfsLookup exEnv ?r ''/'' = Inr (Directory ())"
    "dirUnlink exEnv ?r () ''nope'' = (?r, Some ''file does not exist'')"
    by (simp_all add: exEnv_def)
  from errors_returned_except_pin_status[of False exHandle exEnvPinDown exRunning,
      THEN conjunct1, rule_format, of "(''u'', ''t'')" "''pin service unreachable''"] 3 h
  have a: "newRoot exEnvPinDown False exRunning exHandle =
     rebuild exEnvPinDown (logEv [EvGetStatus []] exRunning) exHandle ''QmKnown''"
    by simp
  from errors_returned_except_pin_status[of True exHandle exEnvNoResolve exRunning,
      THEN conjunct2, THEN conjunct2, THEN conjunct1, rule_format, OF 1] 2
  have b: "rebuild exEnvNoResolve exRunning exHandle ''QmPinned'' =
     Returns (logEv [EvResolve ''QmPinned''] exRunning, exHandle) (Some ''context deadline exceeded'')"
    by blast
  note d = errors_returned_except_pin_status[of False exRooted exEnv exRunning "''/''" "[]" "[]" "[]" "[]" "''nope''",
      THEN conjunct2, THEN conjunct2, THEN conjunct2, THEN conjunct2, THEN conjunct1, rule_format,
      OF conjI[OF r(1) conjI[OF r(2) r(3)]]]
  note d' = d[THEN conjunct2, THEN conjunct2, THEN conjunct2, THEN conjunct2, THEN conjunct2, THEN conjunct2, THEN conjunct2, THEN conjunct2, THEN conjunct1, rule_format, OF conjI[OF u(1) u(2)]]
  then have c: "Unlink exEnv exRunning exRooted ''/'' ''nope'' =
     Returns (exRunning, exRooted\<lparr>mroot := Some ?r\<rparr>) (Some ''file does not exist'')" .
  from a b c 2 3 u exNoResolve_list show ?thesis by simp
qed

text \<open>
  Claim C8 describes what \<open>Unlink\<close> is written to do, and the code misses it: on a path
  that the lookup does not find, \<open>Unlink\<close> does not return the lookup's error but calls
  \<open>Unlink\<close> on the nil directory and panics (nothing is removed).
\<close>

theorem Unlink_missing_path_panics:
  "mfsLookup exEnv [\<lparr>nlName = ''QmKnown'', nlType = 0, nlSize = 0, nlHash = ''QmKnown''\<rparr>] ''/missing''
     = Inl ''file does not exist'' \<and>
   Unlink exEnv exRunning exRooted ''/missing'' ''x'' = Panics (exRunning, exRooted)"
proof -
  have 2: "\<not> lock exRooted"
    and 3: "mroot exRooted = Some [\<lparr>nlName = ''QmKnown'', nlType = 0, nlSize = 0, nlHash = ''QmKnown''\<rparr>]"
    by (simp_all add: exRooted_def)
  have 4: "mfsLookup exEnv [\<lparr>nlName = ''QmKnown'', nlType = 0, nlSize = 0, nlHash = ''QmKnown''\<rparr>] ''/missing''
     = Inl ''file does not exist''"
    by (simp add: exEnv_def)
  from Unlink_panics[OF exRooted_newRoot 2 3 disjI1[OF 4]] 4 show ?thesis by simp
qed

end
